theory Spec2Isabelle
  imports Complex_Main "HOL-Library.Sublist"
begin

section \<open>JavaScript values that can be thrown and caught\<close>

text \<open>
  \<^verbatim>\<open>catch (e)\<close> binds a value of unknown shape. The handlers of \<^verbatim>\<open>src/index.tsx\<close>
  observe it in four ways only: \<^verbatim>\<open>e instanceof Error\<close>, \<^verbatim>\<open>e.message\<close>,
  \<^verbatim>\<open>JSON.stringify(e)\<close> and \<^verbatim>\<open>String(e)\<close>. The values modelled are the finite
  trees of plain data, plus \<^verbatim>\<open>Error\<close> instances: \<open>Err name message props\<close> is an
  \<^verbatim>\<open>Error\<close> (or an instance of a subclass) whose \<^verbatim>\<open>name\<close> and \<^verbatim>\<open>message\<close> read as
  the two strings and whose own enumerable properties are \<open>props\<close>, in enumeration
  order. \<^verbatim>\<open>new Error(m)\<close> is \<open>Err ''Error'' m []\<close>: the constructor stores the message
  as a non-enumerable property. \<open>Num n\<close> is the number \<open>n\<close> for an integer of
  magnitude below \<open>2 ^ 53\<close>, the range in which every integer is a number of JavaScript
  and is written in plain decimal digits; fractions and larger numbers (written with an
  exponent from \<open>10 ^ 21\<close> on) are outside the model. Strings are sequences of
  characters with codes below 256. Cyclic objects, \<^verbatim>\<open>toJSON\<close> methods, functions,
  symbols and bigints are outside the model.
\<close>

datatype jsval =
    Undefined
  | Null
  | Bool bool
  | Num int
  | Str string
  | Arr "jsval list"
  | Obj "(string \<times> jsval) list"
  | Err string string "(string \<times> jsval) list"

definition instanceof_Error :: "jsval \<Rightarrow> bool" where
  "instanceof_Error e = (case e of Err n m ps \<Rightarrow> True | _ \<Rightarrow> False)"

text \<open>\<^verbatim>\<open>e.message\<close>, read only where \<^verbatim>\<open>e instanceof Error\<close> holds.\<close>

definition message :: "jsval \<Rightarrow> string" where
  "message e = (case e of Err n m ps \<Rightarrow> m | _ \<Rightarrow> [])"

subsection \<open>String operations\<close>

text \<open>\<^verbatim>\<open>s.startsWith(sub)\<close> and \<^verbatim>\<open>s.includes(sub)\<close>: exact, case-sensitive matching.\<close>

fun startsWith :: "string \<Rightarrow> string \<Rightarrow> bool" where
  "startsWith s [] = True"
| "startsWith [] (c # sub) = False"
| "startsWith (d # s) (c # sub) = (d = c \<and> startsWith s sub)"

fun includes_sub :: "string \<Rightarrow> string \<Rightarrow> bool" where
  "includes_sub [] sub = (sub = [])"
| "includes_sub (d # s) sub = (startsWith (d # s) sub \<or> includes_sub s sub)"

text \<open>\<^verbatim>\<open>s.toLowerCase()\<close> on 8-bit characters: the letters A to Z move to a to z.\<close>

definition toLowerCase_char :: "char \<Rightarrow> char" where
  "toLowerCase_char c =
     (let n = (of_char c :: nat) in if 65 \<le> n \<and> n \<le> 90 then char_of (n + 32) else c)"

definition toLowerCase :: "string \<Rightarrow> string" where
  "toLowerCase s = map toLowerCase_char s"

text \<open>\<^verbatim>\<open>xs.join(sep)\<close> on an array of strings.\<close>

fun join :: "string \<Rightarrow> string list \<Rightarrow> string" where
  "join sep [] = []"
| "join sep [x] = x"
| "join sep (x # y # xs) = x @ sep @ join sep (y # xs)"

text \<open>
  The decimal text of an integer, as \<^verbatim>\<open>String(n)\<close> and \<^verbatim>\<open>JSON.stringify(n)\<close> give it
  for the integers of magnitude below \<open>2 ^ 53\<close>.
\<close>

fun digits :: "nat \<Rightarrow> string" where
  "digits n = (if n < 10 then [char_of (48 + n)] else digits (n div 10) @ [char_of (48 + n mod 10)])"

definition Number_toString :: "int \<Rightarrow> string" where
  "Number_toString n = (if n < 0 then CHR ''-'' # digits (nat (- n)) else digits (nat n))"

subsection \<open>\<^verbatim>\<open>JSON.stringify\<close>\<close>

text \<open>
  The quoting of a string inside JSON text: the double quote and the backslash are
  escaped with a backslash, the control characters below 0x20 by their short escape or
  by \<^verbatim>\<open>\u00XX\<close>; every other character stands for itself.
\<close>

definition hex_digit :: "nat \<Rightarrow> char" where
  "hex_digit n = (if n < 10 then char_of (48 + n) else char_of (87 + n))"

definition JSON_quote_char :: "char \<Rightarrow> string" where
  "JSON_quote_char c =
     (let n = (of_char c :: nat) in
      if n = 34 then [CHR 0x5C, CHR 0x22]
      else if n = 92 then [CHR 0x5C, CHR 0x5C]
      else if n = 8 then [CHR 0x5C, CHR ''b'']
      else if n = 9 then [CHR 0x5C, CHR ''t'']
      else if n = 10 then [CHR 0x5C, CHR ''n'']
      else if n = 12 then [CHR 0x5C, CHR ''f'']
      else if n = 13 then [CHR 0x5C, CHR ''r'']
      else if n < 32 then [CHR 0x5C, CHR ''u'', CHR ''0'', CHR ''0'', hex_digit (n div 16), hex_digit (n mod 16)]
      else [c])"

definition JSON_quote :: "string \<Rightarrow> string" where
  "JSON_quote s = CHR 0x22 # concat (map JSON_quote_char s) @ [CHR 0x22]"

text \<open>
  \<^verbatim>\<open>JSON.stringify(v)\<close> with no replacer and no indentation. The result \<open>None\<close> is
  JavaScript's \<^verbatim>\<open>undefined\<close>: \<^verbatim>\<open>JSON.stringify(undefined)\<close> is not a string. Inside
  an array \<^verbatim>\<open>undefined\<close> is written \<^verbatim>\<open>null\<close>; inside an object a property whose value
  is \<^verbatim>\<open>undefined\<close> is left out. An \<^verbatim>\<open>Error\<close> is serialized as the object of its own
  enumerable properties, so its message and stack do not appear.
\<close>

fun JSON_stringify :: "jsval \<Rightarrow> string option" where
  "JSON_stringify Undefined = None"
| "JSON_stringify Null = Some ''null''"
| "JSON_stringify (Bool b) = Some (if b then ''true'' else ''false'')"
| "JSON_stringify (Num n) = Some (Number_toString n)"
| "JSON_stringify (Str s) = Some (JSON_quote s)"
| "JSON_stringify (Arr vs) =
     Some (''['' @ join '',''
         (map (\<lambda>v. case JSON_stringify v of None \<Rightarrow> ''null'' | Some t \<Rightarrow> t) vs) @ '']'')"
| "JSON_stringify (Obj kvs) =
     Some (''{'' @ join '',''
         (concat (map (\<lambda>kv. case JSON_stringify (snd kv) of None \<Rightarrow> []
                              | Some t \<Rightarrow> [JSON_quote (fst kv) @ '':'' @ t]) kvs)) @ ''}'')"
| "JSON_stringify (Err name msg kvs) =
     Some (''{'' @ join '',''
         (concat (map (\<lambda>kv. case JSON_stringify (snd kv) of None \<Rightarrow> []
                              | Some t \<Rightarrow> [JSON_quote (fst kv) @ '':'' @ t]) kvs)) @ ''}'')"

subsection \<open>\<^verbatim>\<open>String(v)\<close>\<close>

text \<open>
  The conversion to a string: an array joins its elements with commas, writing nothing
  for \<^verbatim>\<open>null\<close> and \<^verbatim>\<open>undefined\<close>; a plain object is \<^verbatim>\<open>[object Object]\<close>; an
  \<^verbatim>\<open>Error\<close> is its name and message, as \<^verbatim>\<open>Error.prototype.toString\<close> builds them.
\<close>

fun String_of :: "jsval \<Rightarrow> string" where
  "String_of Undefined = ''undefined''"
| "String_of Null = ''null''"
| "String_of (Bool b) = (if b then ''true'' else ''false'')"
| "String_of (Num n) = Number_toString n"
| "String_of (Str s) = s"
| "String_of (Arr vs) =
     join '','' (map (\<lambda>v. if v = Undefined \<or> v = Null then [] else String_of v) vs)"
| "String_of (Obj kvs) = ''[object Object]''"
| "String_of (Err name msg kvs) =
     (if name = [] then msg else if msg = [] then name else name @ '': '' @ msg)"

section \<open>The retry wrapper\<close>

text \<open>
  \<^verbatim>\<open>withRetries(apiCall, maxRetries = 3, initialDelay = 2000)\<close>, lines 16 to 35. The
  wrapped work is an effectful asynchronous call: a function from the state of the
  world (the remote service, the network) to its outcome, a caught value on the left
  or the result on the right, and the next state of the world. The run of the wrapper
  is recorded in \<open>calls\<close>, the number of times \<^verbatim>\<open>apiCall()\<close> was invoked, and \<open>delays\<close>,
  the numbers handed to \<^verbatim>\<open>setTimeout\<close> in order. The two console logs are not
  modelled.
\<close>

text \<open>
  Line 26 computes the delay in double-precision arithmetic. \<open>jsnum\<close> holds the values
  this computation can take: an integer, the two infinities and \<^verbatim>\<open>NaN\<close>.
  \<^verbatim>\<open>Math.pow(2, n)\<close> is the exact power up to \<open>n = 1023\<close> and \<^verbatim>\<open>Infinity\<close> from
  \<open>n = 1024\<close> on. The product of a number with a power of two is exact as long as
  its magnitude stays below \<open>2 ^ 1024\<close>, and an infinity of the product's sign
  otherwise; zero times \<^verbatim>\<open>Infinity\<close> is \<^verbatim>\<open>NaN\<close>. \<open>initialDelay\<close> is an integer that
  is a number of JavaScript.
\<close>

datatype jsnum = Finite int | PosInfinity | NegInfinity | NaN

definition Math_pow2 :: "nat \<Rightarrow> jsnum" where
  "Math_pow2 n = (if n < 1024 then Finite (2 ^ n) else PosInfinity)"

definition times_double :: "int \<Rightarrow> jsnum \<Rightarrow> jsnum" where
  "times_double d p =
     (case p of
        Finite q \<Rightarrow>
          if \<bar>d * q\<bar> < 2 ^ 1024 then Finite (d * q)
          else if 0 < d * q then PosInfinity else NegInfinity
      | PosInfinity \<Rightarrow> if d = 0 then NaN else if 0 < d then PosInfinity else NegInfinity
      | NegInfinity \<Rightarrow> if d = 0 then NaN else if 0 < d then NegInfinity else PosInfinity
      | NaN \<Rightarrow> NaN)"

text \<open>\<^verbatim>\<open>initialDelay * Math.pow(2, attempt - 1)\<close>, line 26.\<close>

definition backoff_delay :: "int \<Rightarrow> nat \<Rightarrow> jsnum" where
  "backoff_delay initialDelay attempt = times_double initialDelay (Math_pow2 (attempt - 1))"

text \<open>
  What the timer of a browser makes of the second argument of \<^verbatim>\<open>setTimeout\<close>: the
  number is converted to a signed integer of 32 bits (the infinities and \<^verbatim>\<open>NaN\<close> to
  0, an integer by wrapping modulo \<open>2 ^ 32\<close>), and a negative timeout counts as 0. The
  result is the time in milliseconds after which the timer is due.
\<close>

definition ToInt32 :: "jsnum \<Rightarrow> int" where
  "ToInt32 x =
     (case x of
        Finite n \<Rightarrow> (let m = n mod 2 ^ 32 in if 2 ^ 31 \<le> m then m - 2 ^ 32 else m)
      | _ \<Rightarrow> 0)"

definition setTimeout_timeout :: "jsnum \<Rightarrow> int" where
  "setTimeout_timeout x = (let t = ToInt32 x in if t < 0 then 0 else t)"

record 'a retried =
  outcome :: "jsval + 'a"
  calls :: nat
  delays :: "jsnum list"

text \<open>The timeouts that the timer runs for the sleeps of a run.\<close>

definition waits :: "'a retried \<Rightarrow> int list" where
  "waits r = map setTimeout_timeout (delays r)"

text \<open>
  Line 23, \<^verbatim>\<open>JSON.stringify(e).includes('RESOURCE_EXHAUSTED')\<close>. The result \<open>None\<close>
  stands for the case that \<^verbatim>\<open>JSON.stringify(e)\<close> is \<^verbatim>\<open>undefined\<close>: the method call
  then raises a \<^verbatim>\<open>TypeError\<close> inside the \<^verbatim>\<open>catch\<close> block, and that error, not
  \<^verbatim>\<open>e\<close>, is what the wrapper raises. \<open>includes_TypeError\<close> is that error, with the
  message text of the V8 engine.
\<close>

definition isRateLimitError :: "jsval \<Rightarrow> bool option" where
  "isRateLimitError e =
     (case JSON_stringify e of
        None \<Rightarrow> None
      | Some t \<Rightarrow> Some (includes_sub t ''RESOURCE_EXHAUSTED''))"

definition includes_TypeError :: jsval where
  "includes_TypeError =
     Err ''TypeError'' ''Cannot read properties of undefined (reading 'includes')'' []"

text \<open>
  The \<^verbatim>\<open>while (true)\<close> loop. \<open>attempt\<close> is the source's counter, incremented in the
  \<^verbatim>\<open>catch\<close> block before the test \<^verbatim>\<open>attempt < maxRetries\<close>; the delay is
  \<open>backoff_delay\<close> of the incremented counter.
\<close>

function withRetries_loop ::
  "('w \<Rightarrow> (jsval + 'a) \<times> 'w) \<Rightarrow> int \<Rightarrow> int \<Rightarrow> nat \<Rightarrow> nat \<Rightarrow> jsnum list \<Rightarrow> 'w \<Rightarrow> 'a retried \<times> 'w"
where
  "withRetries_loop apiCall maxRetries initialDelay attempt ncalls slept w =
     (case fst (apiCall w) of
        Inr v \<Rightarrow> (\<lparr>outcome = Inr v, calls = Suc ncalls, delays = slept\<rparr>, snd (apiCall w))
      | Inl e \<Rightarrow>
          (case isRateLimitError e of
             None \<Rightarrow>
               (\<lparr>outcome = Inl includes_TypeError, calls = Suc ncalls, delays = slept\<rparr>,
                snd (apiCall w))
           | Some isRateLimit \<Rightarrow>
               if isRateLimit \<and> int (Suc attempt) < maxRetries
               then withRetries_loop apiCall maxRetries initialDelay (Suc attempt) (Suc ncalls)
                      (slept @ [backoff_delay initialDelay (Suc attempt)]) (snd (apiCall w))
               else (\<lparr>outcome = Inl e, calls = Suc ncalls, delays = slept\<rparr>, snd (apiCall w))))"
  by pat_completeness auto
termination
  by (relation "measure (\<lambda>(apiCall, maxRetries, initialDelay, attempt, ncalls, slept, w).
                   nat (maxRetries - int attempt))") auto

declare withRetries_loop.simps [simp del]

definition withRetries ::
  "('w \<Rightarrow> (jsval + 'a) \<times> 'w) \<Rightarrow> int \<Rightarrow> int \<Rightarrow> 'w \<Rightarrow> 'a retried \<times> 'w"
where
  "withRetries apiCall maxRetries initialDelay w =
     withRetries_loop apiCall maxRetries initialDelay 0 0 [] w"

text \<open>The call with both default parameters, as every caller in the source makes it.\<close>

definition withRetries_default :: "('w \<Rightarrow> (jsval + 'a) \<times> 'w) \<Rightarrow> 'w \<Rightarrow> 'a retried \<times> 'w" where
  "withRetries_default apiCall w = withRetries apiCall 3 2000 w"

text \<open>The state of the world in which the invocation number \<open>k + 1\<close> of the work runs.\<close>

definition world_before :: "('w \<Rightarrow> (jsval + 'a) \<times> 'w) \<Rightarrow> 'w \<Rightarrow> nat \<Rightarrow> 'w" where
  "world_before apiCall w k = ((\<lambda>x. snd (apiCall x)) ^^ k) w"

section \<open>The state of the application\<close>

text \<open>
  The twelve \<^verbatim>\<open>useState\<close> cells of \<^verbatim>\<open>App\<close>, lines 71 to 83, as one record. A setter
  call \<^verbatim>\<open>setX(v)\<close> is the record update of its cell, and a functional update
  \<^verbatim>\<open>setIsLoading(prev => ({ ...prev, k: b }))\<close> the update of one flag. The cell
  \<^verbatim>\<open>image\<close> is \<open>image_state\<close> here, and the flags \<^verbatim>\<open>script\<close>, \<^verbatim>\<open>video\<close> and
  \<^verbatim>\<open>audio\<close> of \<^verbatim>\<open>isLoading\<close> are \<open>script_loading\<close>, \<open>video_loading\<close> and
  \<open>audio_loading\<close>. The stage \<^verbatim>\<open>currentStep\<close> is an integer: no setter bounds it.
  The field \<^verbatim>\<open>base64\<close> of an image is optional, since line 192 can store
  \<^verbatim>\<open>undefined\<close> there.
\<close>

record image_file =
  base64 :: "string option"
  mimeType :: string

record loading =
  script_loading :: bool
  video_loading :: bool
  audio_loading :: bool

record app_state =
  topic :: string
  script :: string
  image_state :: "image_file option"
  videoUrl :: string
  audioUrl :: string
  selectedVoice :: string
  currentStep :: int
  isLoading :: loading
  videoLoadingMessage :: string
  error :: string
  audioError :: string
  videoGenerationFailed :: bool

definition initial_state :: app_state where
  "initial_state =
     \<lparr>topic = [], script = [], image_state = None, videoUrl = [], audioUrl = [],
      selectedVoice = ''female'', currentStep = 1,
      isLoading = \<lparr>script_loading = False, video_loading = False, audio_loading = False\<rparr>,
      videoLoadingMessage = [], error = [], audioError = [],
      videoGenerationFailed = False\<rparr>"

subsection \<open>Navigation and reset\<close>

text \<open>\<^verbatim>\<open>resetApp\<close>, lines 297 to 310: eleven setter calls, then the speech preview is cancelled.\<close>

definition resetApp :: "app_state \<Rightarrow> app_state" where
  "resetApp s =
     s\<lparr>topic := [], script := [], image_state := None, videoUrl := [], audioUrl := [],
       selectedVoice := ''female'', audioError := [], videoGenerationFailed := False,
       currentStep := 1, error := [],
       isLoading := \<lparr>script_loading = False, video_loading = False, audio_loading = False\<rparr>\<rparr>"

text \<open>\<^verbatim>\<open>handleGoBack\<close>, lines 312 to 314: \<^verbatim>\<open>setCurrentStep(prev => prev - 1)\<close>.\<close>

definition handleGoBack :: "app_state \<Rightarrow> app_state" where
  "handleGoBack s = s\<lparr>currentStep := currentStep s - 1\<rparr>"

text \<open>\<^verbatim>\<open>skipAudioGeneration\<close>, lines 181 to 184.\<close>

definition skipAudioGeneration :: "app_state \<Rightarrow> app_state" where
  "skipAudioGeneration s = s\<lparr>audioUrl := [], currentStep := 3\<rparr>"

subsection \<open>Image upload\<close>

text \<open>
  \<^verbatim>\<open>handleImageUpload\<close>, lines 187 to 198, with the callback \<^verbatim>\<open>onloadend\<close> run.
  The argument is the first chosen file, if there is one: \<open>reader_result\<close> is what the
  \<^verbatim>\<open>FileReader\<close> has read, a data URL, or \<open>None\<close> for the \<^verbatim>\<open>null\<close> of a failed
  read, on which \<^verbatim>\<open>split\<close> raises inside the callback and no setter is reached.
  \<^verbatim>\<open>s.split(',')[1]\<close> is the piece between the first and the second comma, and
  \<^verbatim>\<open>undefined\<close> when \<open>s\<close> has no comma.
\<close>

record chosen_file =
  reader_result :: "string option"
  file_type :: string

fun split_comma :: "string \<Rightarrow> string list" where
  "split_comma [] = [[]]"
| "split_comma (c # s) =
     (if c = CHR '','' then [] # split_comma s
      else (case split_comma s of [] \<Rightarrow> [[c]] | x # xs \<Rightarrow> (c # x) # xs))"

definition handleImageUpload :: "chosen_file option \<Rightarrow> app_state \<Rightarrow> app_state" where
  "handleImageUpload file s =
     (case file of
        None \<Rightarrow> s
      | Some f \<Rightarrow>
          (case reader_result f of
             None \<Rightarrow> s
           | Some dataUrl \<Rightarrow>
               s\<lparr>image_state :=
                   Some \<lparr>base64 = (case split_comma dataUrl of
                                       x # base64String # xs \<Rightarrow> Some base64String
                                     | _ \<Rightarrow> None),
                         mimeType = file_type f\<rparr>,
                 currentStep := 4\<rparr>))"

text \<open>
  \<^verbatim>\<open>handleClearImage\<close>, lines 201 to 207, and the \<^verbatim>\<open>onChange\<close> handler of the script
  text area, line 348, which is rendered at every stage and has no \<^verbatim>\<open>disabled\<close>
  attribute.
\<close>

definition handleClearImage :: "app_state \<Rightarrow> app_state" where
  "handleClearImage s = s\<lparr>image_state := None, currentStep := 3\<rparr>"

definition script_onChange :: "string \<Rightarrow> app_state \<Rightarrow> app_state" where
  "script_onChange v s = s\<lparr>script := v\<rparr>"

subsection \<open>Simulated audio generation\<close>

text \<open>
  \<^verbatim>\<open>handleGenerateAudio\<close>, lines 150 to 178. \<open>random\<close> is the value of
  \<^verbatim>\<open>Math.random()\<close> and \<open>objectUrl\<close> the URL that \<^verbatim>\<open>URL.createObjectURL\<close> returns for
  the blob of the silent MP3 (lines 167 to 175).
\<close>

definition audioBusyText :: string where
  "audioBusyText =
     ''The audio generation server is currently busy. Please reload or try again in a moment.''"

definition handleGenerateAudio :: "real \<Rightarrow> string \<Rightarrow> app_state \<Rightarrow> app_state" where
  "handleGenerateAudio random objectUrl s =
     (if script s = [] then s
      else
        let s1 = s\<lparr>isLoading := (isLoading s)\<lparr>audio_loading := True\<rparr>, audioError := []\<rparr> in
        if random > 0.5
        then s1\<lparr>audioError := audioBusyText,
                isLoading := (isLoading s1)\<lparr>audio_loading := False\<rparr>\<rparr>
        else s1\<lparr>audioUrl := objectUrl,
                isLoading := (isLoading s1)\<lparr>audio_loading := False\<rparr>,
                currentStep := 3\<rparr>)"

section \<open>Classification of caught failures\<close>

text \<open>
  The two \<^verbatim>\<open>catch\<close> blocks choose the text of \<^verbatim>\<open>setError\<close> by an if-chain over
  substring tests. Each branch is labelled here with the category it reports.
\<close>

datatype category = QuotaExceeded | MissingResult | ContentPolicyViolation | Unexpected

text \<open>
  Script stage, lines 106 to 116. \<^verbatim>\<open>[m, JSON.stringify(e)].join(' ')\<close> writes nothing
  for an element that is \<^verbatim>\<open>undefined\<close>.
\<close>

definition script_combinedErrorMessage :: "jsval \<Rightarrow> string" where
  "script_combinedErrorMessage e =
     join '' ''
       [if instanceof_Error e then message e else [],
        case JSON_stringify e of None \<Rightarrow> [] | Some t \<Rightarrow> t]"

definition script_category :: "jsval \<Rightarrow> category" where
  "script_category e =
     (let combinedErrorMessage = script_combinedErrorMessage e in
      if includes_sub combinedErrorMessage ''quota''
         \<or> includes_sub combinedErrorMessage ''RESOURCE_EXHAUSTED''
      then QuotaExceeded
      else Unexpected)"

definition scriptErrorText :: "jsval \<Rightarrow> string" where
  "scriptErrorText e =
     (case script_category e of
        QuotaExceeded \<Rightarrow>
          ''You've exceeded your API quota. Please check your plan and billing details, or or try again later.''
      | _ \<Rightarrow> ''Failed to generate script. Please try again.'')"

text \<open>
  Video stage, lines 278 to 289:
  \<^verbatim>\<open>errorInst = e instanceof Error ? e : new Error(String(e))\<close> and
  \<^verbatim>\<open>errorMessage = errorInst.message\<close>.
\<close>

definition video_errorMessage :: "jsval \<Rightarrow> string" where
  "video_errorMessage e = (if instanceof_Error e then message e else String_of e)"

definition video_category :: "jsval \<Rightarrow> category" where
  "video_category e =
     (let errorMessage = video_errorMessage e in
      if includes_sub errorMessage ''quota'' \<or> includes_sub errorMessage ''RESOURCE_EXHAUSTED''
      then QuotaExceeded
      else if includes_sub errorMessage ''VIDEO_URI_MISSING''
      then MissingResult
      else if includes_sub (toLowerCase errorMessage) ''sensitive''
              \<or> includes_sub (toLowerCase errorMessage) ''policy''
              \<or> includes_sub (toLowerCase errorMessage) ''responsible ai''
      then ContentPolicyViolation
      else Unexpected)"

definition videoErrorText :: "jsval \<Rightarrow> string" where
  "videoErrorText e =
     (case video_category e of
        QuotaExceeded \<Rightarrow>
          ''You've exceeded your API quota for video generation. Please check your plan and billing details, or try again later.''
      | MissingResult \<Rightarrow>
          ''Video generation finished, but no video was created. This often happens due to content policy violations. Please try adjusting your script or image and resubmitting.''
      | ContentPolicyViolation \<Rightarrow>
          ''The prompt was rejected due to content policies. Please revise your script to align with safety guidelines and try again. (Details: ''
            @ video_errorMessage e @ '')''
      | Unexpected \<Rightarrow>
          ''Failed to generate video due to an unexpected error. Please try again. (Details: ''
            @ video_errorMessage e @ '')'')"

section \<open>The remote collaborators\<close>

text \<open>
  The operation handle of the video service, with the fields that
  \<^verbatim>\<open>generateVideo\<close> reads: \<^verbatim>\<open>operation.done\<close>, \<^verbatim>\<open>operation.error\<close> with its
  optional \<^verbatim>\<open>message\<close>, and the chain
  \<^verbatim>\<open>operation.response?.generatedVideos?.[0]?.video?.uri\<close>.
\<close>

record Video =
  uri :: "string option"

record GeneratedVideo =
  video :: "Video option"

record GenerateVideosResponse =
  generatedVideos :: "GeneratedVideo list option"

record OperationError =
  error_message :: "string option"

record Operation =
  op_done :: bool
  op_error :: "OperationError option"
  op_response :: "GenerateVideosResponse option"

text \<open>
  The response of \<^verbatim>\<open>fetch\<close>: \<open>json_body\<close> is the value that \<^verbatim>\<open>response.json()\<close>
  resolves to, or \<open>None\<close> when it rejects; \<open>blob\<close> is the outcome of
  \<^verbatim>\<open>response.blob()\<close>.
\<close>

record FetchResponse =
  ok :: bool
  statusText :: string
  json_body :: "jsval option"
  blob :: "jsval + string"

text \<open>
  The environment of the handlers: the three methods of the \<^verbatim>\<open>ai\<close> client that the
  source calls, \<^verbatim>\<open>fetch\<close>, \<^verbatim>\<open>URL.createObjectURL\<close> and the key read at start-up.
  Each call takes the state of the world and returns the next one.
\<close>

record 'w env =
  generateContent :: "string \<Rightarrow> 'w \<Rightarrow> (jsval + string) \<times> 'w"
  generateVideos :: "string \<Rightarrow> image_file \<Rightarrow> 'w \<Rightarrow> (jsval + Operation) \<times> 'w"
  getVideosOperation :: "Operation \<Rightarrow> 'w \<Rightarrow> (jsval + Operation) \<times> 'w"
  fetch :: "string \<Rightarrow> 'w \<Rightarrow> (jsval + FetchResponse) \<times> 'w"
  createObjectURL :: "string \<Rightarrow> 'w \<Rightarrow> string \<times> 'w"
  API_KEY :: string

subsection \<open>Property access on a parsed body\<close>

text \<open>
  \<^verbatim>\<open>v?.k\<close>: \<^verbatim>\<open>undefined\<close> when \<open>v\<close> is \<^verbatim>\<open>null\<close> or \<^verbatim>\<open>undefined\<close>, and the property
  otherwise. \<open>truthy\<close> is the test that \<^verbatim>\<open>||\<close> and \<^verbatim>\<open>if\<close> apply to a value.
\<close>

fun optional_get :: "jsval \<Rightarrow> string \<Rightarrow> jsval" where
  "optional_get (Obj kvs) k = (case map_of kvs k of None \<Rightarrow> Undefined | Some v \<Rightarrow> v)"
| "optional_get (Err name msg kvs) k =
     (case map_of kvs k of
        Some v \<Rightarrow> v
      | None \<Rightarrow> if k = ''message'' then Str msg else if k = ''name'' then Str name else Undefined)"
| "optional_get v k = Undefined"

fun truthy :: "jsval \<Rightarrow> bool" where
  "truthy Undefined = False"
| "truthy Null = False"
| "truthy (Bool b) = b"
| "truthy (Num n) = (n \<noteq> 0)"
| "truthy (Str t) = (t \<noteq> [])"
| "truthy v = True"

section \<open>The poller of the video operation\<close>

text \<open>
  The \<^verbatim>\<open>try\<close> block of \<^verbatim>\<open>generateVideo\<close>, lines 231 to 272, in three parts. Its run
  is recorded in \<open>fetched\<close>, the URLs requested with \<^verbatim>\<open>fetch\<close>, and \<open>polls\<close>, the
  number of status queries, each made after a sleep of 30000.
\<close>

record polled =
  video_outcome :: "jsval + string"
  fetched :: "string list"
  polls :: nat

text \<open>
  Lines 239 to 242. The loop has no bound: when the service never reports
  \<^verbatim>\<open>done\<close> the function has no value, which is \<open>None\<close>.
\<close>

partial_function (option) generateVideo_poll ::
  "'w env \<Rightarrow> Operation \<Rightarrow> nat \<Rightarrow> 'w \<Rightarrow> ((jsval + Operation) \<times> nat \<times> 'w) option"
where
  "generateVideo_poll env operation n w =
     (if op_done operation then Some (Inr operation, n, w)
      else
        (case withRetries_default (getVideosOperation env operation) w of
           (r, w') \<Rightarrow>
             (case outcome r of
                Inl e \<Rightarrow> Some (Inl e, Suc n, w')
              | Inr operation' \<Rightarrow> generateVideo_poll env operation' (Suc n) w')))"

declare generateVideo_poll.simps [code]

text \<open>\<^verbatim>\<open>operation.response?.generatedVideos?.[0]?.video?.uri\<close>, line 252.\<close>

definition operation_uri :: "Operation \<Rightarrow> string option" where
  "operation_uri operation =
     (case op_response operation of
        None \<Rightarrow> None
      | Some response \<Rightarrow>
          (case generatedVideos response of
             None \<Rightarrow> None
           | Some [] \<Rightarrow> None
           | Some (g # gs) \<Rightarrow> (case video g of None \<Rightarrow> None | Some v \<Rightarrow> uri v)))"

text \<open>
  Lines 256 to 263: \<^verbatim>\<open>errorBody?.error?.message || errorDetail\<close>, written into the
  template string of the raised error.
\<close>

definition fetch_errorDetail :: "FetchResponse \<Rightarrow> string" where
  "fetch_errorDetail videoResponse =
     (case json_body videoResponse of
        None \<Rightarrow> statusText videoResponse
      | Some errorBody \<Rightarrow>
          (let m = optional_get (optional_get errorBody ''error'') ''message'' in
           if truthy m then String_of m else statusText videoResponse))"

text \<open>Lines 246 to 272: what is made of the operation once it is done.\<close>

definition generateVideo_result ::
  "'w env \<Rightarrow> Operation \<Rightarrow> 'w \<Rightarrow> (jsval + string) \<times> string list \<times> 'w"
where
  "generateVideo_result env operation w =
     (case op_error operation of
        Some err \<Rightarrow>
          (Inl (Err ''Error''
                 (case error_message err of
                    None \<Rightarrow> ''The video generation service returned an error.''
                  | Some m \<Rightarrow>
                      if m = [] then ''The video generation service returned an error.'' else m)
                 []),
           [], w)
      | None \<Rightarrow>
          (case operation_uri operation of
             None \<Rightarrow> (Inl (Err ''Error'' ''VIDEO_URI_MISSING'' []), [], w)
           | Some u \<Rightarrow>
               if u = [] then (Inl (Err ''Error'' ''VIDEO_URI_MISSING'' []), [], w)
               else
                 (let url = u @ ''&key='' @ API_KEY env in
                  case fetch env url w of
                    (Inl e, w') \<Rightarrow> (Inl e, [url], w')
                  | (Inr videoResponse, w') \<Rightarrow>
                      if ok videoResponse
                      then
                        (case blob videoResponse of
                           Inl e \<Rightarrow> (Inl e, [url], w')
                         | Inr videoBlob \<Rightarrow>
                             (Inr (fst (createObjectURL env videoBlob w')), [url],
                              snd (createObjectURL env videoBlob w')))
                      else
                        (Inl (Err ''Error''
                               (''Failed to fetch video: '' @ fetch_errorDetail videoResponse) []),
                         [url], w'))))"

text \<open>Lines 231 to 272: submission, polling, and the result of the finished operation.\<close>

definition generateVideo_try ::
  "'w env \<Rightarrow> string \<Rightarrow> image_file \<Rightarrow> 'w \<Rightarrow> (polled \<times> 'w) option"
where
  "generateVideo_try env prompt img w =
     (case withRetries_default (generateVideos env prompt img) w of
        (r, w1) \<Rightarrow>
          (case outcome r of
             Inl e \<Rightarrow> Some (\<lparr>video_outcome = Inl e, fetched = [], polls = 0\<rparr>, w1)
           | Inr operation0 \<Rightarrow>
               (case generateVideo_poll env operation0 0 w1 of
                  None \<Rightarrow> None
                | Some (Inl e, n, w2) \<Rightarrow>
                    Some (\<lparr>video_outcome = Inl e, fetched = [], polls = n\<rparr>, w2)
                | Some (Inr operation, n, w2) \<Rightarrow>
                    (case generateVideo_result env operation w2 of
                       (res, urls, w3) \<Rightarrow>
                         Some (\<lparr>video_outcome = res, fetched = urls, polls = n\<rparr>, w3)))))"

section \<open>The generation handlers\<close>

subsection \<open>Script generation\<close>

text \<open>
  \<^verbatim>\<open>generateScript\<close>, lines 89 to 120. \<^verbatim>\<open>topic.trim()\<close> removes the white space at
  both ends; among the characters with codes below 256 these are the tab, the line
  breaks (codes 10 to 13), the space and the no-break space (code 160).
\<close>

definition isWhiteSpace :: "char \<Rightarrow> bool" where
  "isWhiteSpace c = ((of_char c :: nat) \<in> {9, 10, 11, 12, 13, 32, 160})"

definition trim :: "string \<Rightarrow> string" where
  "trim t = rev (dropWhile isWhiteSpace (rev (dropWhile isWhiteSpace t)))"

definition script_prompt :: "string \<Rightarrow> string" where
  "script_prompt t =
     ''Generate a short, engaging YouTube video script about '' @ [CHR 0x22] @ t @ [CHR 0x22]
     @ ''. The script should be around 150 words and include brief scene descriptions or visual cues.''"

definition generateScript :: "'w env \<Rightarrow> app_state \<Rightarrow> 'w \<Rightarrow> app_state \<times> 'w" where
  "generateScript env s w =
     (if trim (topic s) = [] then (s\<lparr>error := ''Please enter a topic.''\<rparr>, w)
      else
        let s1 = s\<lparr>error := [], isLoading := (isLoading s)\<lparr>script_loading := True\<rparr>\<rparr>;
            r = withRetries_default (generateContent env (script_prompt (topic s))) w;
            s2 = (case outcome (fst r) of
                    Inr text \<Rightarrow> s1\<lparr>script := text, currentStep := 2\<rparr>
                  | Inl e \<Rightarrow> s1\<lparr>error := scriptErrorText e\<rparr>)
        in (s2\<lparr>isLoading := (isLoading s2)\<lparr>script_loading := False\<rparr>\<rparr>, snd r))"

subsection \<open>Video generation\<close>

text \<open>
  \<^verbatim>\<open>generateVideo\<close>, lines 210 to 295. Its five setter calls before the \<^verbatim>\<open>try\<close>
  block are kept as a list, in the order of the source, so that the states between
  two calls can be spoken of.
\<close>

definition loadingMessages :: "string list" where
  "loadingMessages =
     [''Warming up the cameras...'', ''Setting the scene...'',
      ''Action! Filming the main shots...'', ''Adding special effects...'',
      ''Editing the footage...'', ''Rendering the final cut...'', ''Almost there...'']"

definition run_updates :: "(app_state \<Rightarrow> app_state) list \<Rightarrow> app_state \<Rightarrow> app_state" where
  "run_updates us s = foldl (\<lambda>t u. u t) s us"

definition generateVideo_begin :: "(app_state \<Rightarrow> app_state) list" where
  "generateVideo_begin =
     [\<lambda>s. s\<lparr>error := []\<rparr>,
      \<lambda>s. s\<lparr>videoGenerationFailed := False\<rparr>,
      \<lambda>s. s\<lparr>isLoading := (isLoading s)\<lparr>video_loading := True\<rparr>\<rparr>,
      \<lambda>s. s\<lparr>currentStep := 5\<rparr>,
      \<lambda>s. s\<lparr>videoLoadingMessage := loadingMessages ! 0\<rparr>]"

text \<open>
  The rest of the handler once the \<^verbatim>\<open>try\<close> block has ended: \<open>ticks\<close> is the number
  of times the 8000 interval fired before it was cleared, each firing moving the
  loading message one place round the list; then the success path or the \<^verbatim>\<open>catch\<close>
  block, then \<^verbatim>\<open>finally\<close>.
\<close>

definition generateVideo_end :: "nat \<Rightarrow> polled \<Rightarrow> app_state \<Rightarrow> app_state" where
  "generateVideo_end ticks r s1 =
     (let s2 = s1\<lparr>videoLoadingMessage := loadingMessages ! (ticks mod length loadingMessages)\<rparr>;
          s3 = (case video_outcome r of
                  Inr url \<Rightarrow> s2\<lparr>videoUrl := url\<rparr>
                | Inl e \<Rightarrow> s2\<lparr>videoGenerationFailed := True, error := videoErrorText e\<rparr>)
      in s3\<lparr>isLoading := (isLoading s3)\<lparr>video_loading := False\<rparr>\<rparr>)"

definition generateVideo ::
  "'w env \<Rightarrow> nat \<Rightarrow> app_state \<Rightarrow> 'w \<Rightarrow> (app_state \<times> 'w) option"
where
  "generateVideo env ticks s w =
     (if script s = [] \<or> image_state s = None
      then Some (s\<lparr>error := ''Script and image are required to generate a video.''\<rparr>, w)
      else
        (case image_state s of
           None \<Rightarrow> Some (s\<lparr>error := ''Script and image are required to generate a video.''\<rparr>, w)
         | Some img \<Rightarrow>
             (case generateVideo_try env (script s) img w of
                None \<Rightarrow> None
              | Some (r, w') \<Rightarrow>
                  Some (generateVideo_end ticks r (run_updates generateVideo_begin s), w'))))"

text \<open>\<^verbatim>\<open>handleResubmitVideo\<close>, lines 316 to 318.\<close>

definition handleResubmitVideo ::
  "'w env \<Rightarrow> nat \<Rightarrow> app_state \<Rightarrow> 'w \<Rightarrow> (app_state \<times> 'w) option"
where
  "handleResubmitVideo env ticks s w = generateVideo env ticks s w"

section \<open>Concrete collaborators\<close>

text \<open>
  Pieces of work on which the properties below are run. The world is the number of
  invocations made so far. \<open>quota_failure k\<close> is a rejection body of the service for a
  rate-limited request, tagged with the number of the attempt that received it.
\<close>

definition quota_failure :: "nat \<Rightarrow> jsval" where
  "quota_failure k =
     Obj [(''error'', Obj [(''code'', Num 429), (''status'', Str ''RESOURCE_EXHAUSTED'')]),
          (''attempt'', Num (int k))]"

definition always_exhausted :: "nat \<Rightarrow> (jsval + string) \<times> nat" where
  "always_exhausted k = (Inl (quota_failure (Suc k)), Suc k)"

definition exhausted_twice :: "nat \<Rightarrow> (jsval + string) \<times> nat" where
  "exhausted_twice k = (if k < 2 then Inl (quota_failure (Suc k)) else Inr ''A script'', Suc k)"

definition network_down :: "nat \<Rightarrow> (jsval + string) \<times> nat" where
  "network_down k = (Inl (Err ''TypeError'' ''Failed to fetch'' []), Suc k)"

definition rejects_undefined :: "nat \<Rightarrow> (jsval + string) \<times> nat" where
  "rejects_undefined k = (Inl Undefined, Suc k)"


text \<open>
  States of a run of the application: at stage 3 with the audio generated and an image
  kept from an earlier visit of stage 4, at stage 4, and at stage 5 after a video was
  produced or after the attempt failed.
\<close>

definition sample_image :: image_file where
  "sample_image = \<lparr>base64 = Some ''iVBORw0KGgo='', mimeType = ''image/png''\<rparr>"

definition stage3_state :: app_state where
  "stage3_state =
     initial_state\<lparr>topic := ''The history of coffee'', script := ''Coffee began in Ethiopia.'',
       image_state := Some sample_image, audioUrl := ''blob:audio-1'', currentStep := 3\<rparr>"

definition stage4_state :: app_state where
  "stage4_state = stage3_state\<lparr>currentStep := 4\<rparr>"

definition finished_state :: app_state where
  "finished_state =
     stage4_state\<lparr>videoUrl := ''blob:video-1'', currentStep := 5,
       videoLoadingMessage := ''Warming up the cameras...''\<rparr>"

text \<open>
  A video service whose operation is finished at once and carries a result, and one
  whose first status query reports a finished operation with neither error nor result.
\<close>

definition finished_operation :: Operation where
  "finished_operation =
     \<lparr>op_done = True, op_error = None,
      op_response = Some \<lparr>generatedVideos =
        Some [\<lparr>video = Some \<lparr>uri = Some ''https://videos.example/v1?alt=media''\<rparr>\<rparr>]\<rparr>\<rparr>"

definition pending_operation :: Operation where
  "pending_operation = \<lparr>op_done = False, op_error = None, op_response = None\<rparr>"

definition empty_operation :: Operation where
  "empty_operation =
     \<lparr>op_done = True, op_error = None, op_response = Some \<lparr>generatedVideos = None\<rparr>\<rparr>"

definition ready_env :: "nat env" where
  "ready_env =
     \<lparr>generateContent = (\<lambda>contents w. (Inr ''Coffee began in Ethiopia.'', Suc w)),
      generateVideos = (\<lambda>prompt img w. (Inr finished_operation, Suc w)),
      getVideosOperation = (\<lambda>operation w. (Inr finished_operation, Suc w)),
      fetch = (\<lambda>url w. (Inr \<lparr>ok = True, statusText = ''OK'', json_body = None,
                                blob = Inr ''video bytes''\<rparr>, Suc w)),
      createObjectURL = (\<lambda>b w. (''blob:video-1'', Suc w)),
      API_KEY = ''key''\<rparr>"

definition filtered_env :: "nat env" where
  "filtered_env =
     ready_env\<lparr>generateVideos := (\<lambda>prompt img w. (Inr pending_operation, Suc w)),
       getVideosOperation := (\<lambda>operation w. (Inr empty_operation, Suc w))\<rparr>"

definition stage2_state :: app_state where
  "stage2_state =
     initial_state\<lparr>topic := ''The history of coffee'', script := ''Coffee began in Ethiopia.'',
       currentStep := 2\<rparr>"

text \<open>
  A script service that answers with another text, a second file chosen for upload, and
  a browser that names the next video blob differently.
\<close>

definition rewrite_env :: "nat env" where
  "rewrite_env =
     ready_env\<lparr>generateContent :=
       (\<lambda>contents w. (Inr ''Coffee reached Europe in the 17th century.'', Suc w))\<rparr>"

definition other_file :: chosen_file where
  "other_file =
     \<lparr>reader_result = Some ''data:image/jpeg;base64,/9j/4AAQSkZJRg=='',
      file_type = ''image/jpeg''\<rparr>"

definition second_video_env :: "nat env" where
  "second_video_env = ready_env\<lparr>createObjectURL := (\<lambda>b w. (''blob:video-2'', Suc w))\<rparr>"

definition failed_state :: app_state where
  "failed_state =
     stage4_state\<lparr>currentStep := 5, videoGenerationFailed := True,
       videoLoadingMessage := ''Warming up the cameras...'',
       error := videoErrorText (Err ''Error'' ''VIDEO_URI_MISSING'' [])\<rparr>"

text \<open>
  The failed state after the user has emptied the script text area, and after the user
  has cleared the image.
\<close>

definition emptied_script_state :: app_state where
  "emptied_script_state = script_onChange [] failed_state"

definition cleared_image_state :: app_state where
  "cleared_image_state = handleClearImage failed_state"

section \<open>Properties of the retry wrapper\<close>

subsection \<open>Substring tests\<close>

lemma startsWith_prefix: "startsWith s sub = prefix sub s"
  by (induction s sub rule: startsWith.induct) auto

lemma includes_sub_sublist: "includes_sub s sub = sublist sub s"
  by (induction s) (auto simp: startsWith_prefix sublist_Cons_right)

lemma includes_sub_append1: "includes_sub s sub \<Longrightarrow> includes_sub (s @ t) sub"
  by (simp add: includes_sub_sublist sublist_append)

lemma includes_sub_append2: "includes_sub t sub \<Longrightarrow> includes_sub (s @ t) sub"
  by (simp add: includes_sub_sublist sublist_append)


lemma sublist_across_separator:
  assumes "c \<notin> set sub" and "sub \<noteq> []"
  shows "sublist sub (m @ c # t) \<longleftrightarrow> sublist sub m \<or> sublist sub t"
proof
  assume "sublist sub (m @ c # t)"
  then consider "sublist sub m" | "sublist sub (c # t)"
    | xs1 xs2 where "sub = xs1 @ xs2" "suffix xs1 m" "prefix xs2 (c # t)"
    by (auto simp: sublist_append)
  then show "sublist sub m \<or> sublist sub t"
  proof cases
    case 1
    then show ?thesis by simp
  next
    case 2
    then have "prefix sub (c # t) \<or> sublist sub t" by (simp add: sublist_Cons_right)
    moreover have "\<not> prefix sub (c # t)"
      using assms by (cases sub) auto
    ultimately show ?thesis by simp
  next
    case 3
    have "xs2 = []"
    proof (cases xs2)
      case Nil
      then show ?thesis .
    next
      case (Cons x xs)
      with 3(3) have "x = c" by simp
      with Cons 3(1) assms(1) show ?thesis by simp
    qed
    with 3 have "suffix sub m" by simp
    then have "sublist sub m" by (rule suffix_imp_sublist)
    then show ?thesis by simp
  qed
next
  assume "sublist sub m \<or> sublist sub t"
  then show "sublist sub (m @ c # t)"
    by (auto simp: sublist_append sublist_Cons_right)
qed

lemma includes_sub_joined:
  assumes "CHR '' '' \<notin> set sub" and "sub \<noteq> []"
  shows "includes_sub (join '' '' [m, t]) sub \<longleftrightarrow> includes_sub m sub \<or> includes_sub t sub"
  using sublist_across_separator [OF assms, of m t] by (simp add: includes_sub_sublist)

subsection \<open>One iteration of the loop\<close>

lemma withRetries_loop_success:
  "fst (apiCall w) = Inr v \<Longrightarrow>
   withRetries_loop apiCall maxRetries initialDelay attempt ncalls slept w =
     (\<lparr>outcome = Inr v, calls = Suc ncalls, delays = slept\<rparr>, snd (apiCall w))"
  by (subst withRetries_loop.simps) simp

lemma withRetries_loop_throw:
  assumes "fst (apiCall w) = Inl e" and "isRateLimitError e = Some b"
    and "\<not> (b \<and> int (Suc attempt) < maxRetries)"
  shows "withRetries_loop apiCall maxRetries initialDelay attempt ncalls slept w =
     (\<lparr>outcome = Inl e, calls = Suc ncalls, delays = slept\<rparr>, snd (apiCall w))"
  using assms by (subst withRetries_loop.simps) auto

lemma withRetries_loop_retry:
  assumes "fst (apiCall w) = Inl e" and "isRateLimitError e = Some True"
    and "int (Suc attempt) < maxRetries"
  shows "withRetries_loop apiCall maxRetries initialDelay attempt ncalls slept w =
     withRetries_loop apiCall maxRetries initialDelay (Suc attempt) (Suc ncalls)
       (slept @ [backoff_delay initialDelay (Suc attempt)]) (snd (apiCall w))"
  using assms by (subst withRetries_loop.simps) simp

lemma withRetries_loop_TypeError:
  assumes "fst (apiCall w) = Inl e" and "isRateLimitError e = None"
  shows "withRetries_loop apiCall maxRetries initialDelay attempt ncalls slept w =
     (\<lparr>outcome = Inl includes_TypeError, calls = Suc ncalls, delays = slept\<rparr>, snd (apiCall w))"
  using assms by (subst withRetries_loop.simps) simp

lemma calls_withRetries_loop:
  "Suc ncalls \<le> calls (fst (withRetries_loop apiCall maxRetries initialDelay attempt ncalls slept w))"
proof (induction apiCall maxRetries initialDelay attempt ncalls slept w rule: withRetries_loop.induct)
  case (1 apiCall maxRetries initialDelay attempt ncalls slept w)
  show ?case
  proof (cases "fst (apiCall w)")
    case (Inr v)
    then show ?thesis by (simp add: withRetries_loop_success)
  next
    case (Inl e)
    show ?thesis
    proof (cases "isRateLimitError e")
      case None
      with Inl show ?thesis by (simp add: withRetries_loop_TypeError)
    next
      case (Some b)
      show ?thesis
      proof (cases "b \<and> int (Suc attempt) < maxRetries")
        case True
        with Inl Some have "Suc (Suc ncalls) \<le> calls (fst (withRetries_loop apiCall maxRetries initialDelay
            (Suc attempt) (Suc ncalls) (slept @ [backoff_delay initialDelay (Suc attempt)]) (snd (apiCall w))))"
          using "1.IH" by simp
        with Inl Some True show ?thesis by (simp add: withRetries_loop_retry)
      next
        case False
        with Inl Some show ?thesis by (simp add: withRetries_loop_throw)
      qed
    qed
  qed
qed

lemma delays_withRetries_loop:
  "delays (fst (withRetries_loop apiCall maxRetries initialDelay attempt ncalls slept w)) =
     slept @ map (\<lambda>k. backoff_delay initialDelay (Suc k))
       [attempt ..< attempt + (calls (fst (withRetries_loop apiCall maxRetries initialDelay attempt ncalls slept w)) - Suc ncalls)]"
proof (induction apiCall maxRetries initialDelay attempt ncalls slept w rule: withRetries_loop.induct)
  case (1 apiCall maxRetries initialDelay attempt ncalls slept w)
  show ?case
  proof (cases "fst (apiCall w)")
    case (Inr v)
    then show ?thesis by (simp add: withRetries_loop_success)
  next
    case (Inl e)
    show ?thesis
    proof (cases "isRateLimitError e")
      case None
      with Inl show ?thesis by (simp add: withRetries_loop_TypeError)
    next
      case (Some b)
      show ?thesis
      proof (cases "b \<and> int (Suc attempt) < maxRetries")
        case True
        let ?r = "fst (withRetries_loop apiCall maxRetries initialDelay
            (Suc attempt) (Suc ncalls) (slept @ [backoff_delay initialDelay (Suc attempt)]) (snd (apiCall w)))"
        have ih: "delays ?r = (slept @ [backoff_delay initialDelay (Suc attempt)]) @
            map (\<lambda>k. backoff_delay initialDelay (Suc k)) [Suc attempt ..< Suc attempt + (calls ?r - Suc (Suc ncalls))]"
          using "1.IH" Inl Some True by simp
        have ge: "Suc (Suc ncalls) \<le> calls ?r" by (rule calls_withRetries_loop)
        define m where "m = calls ?r - Suc (Suc ncalls)"
        from ge have c: "calls ?r - Suc ncalls = Suc m"
          by (simp add: m_def)
        have "[attempt ..< attempt + Suc m] = attempt # [Suc attempt ..< Suc attempt + m]"
          by (subst upt_rec) simp
        with c have "[attempt ..< attempt + (calls ?r - Suc ncalls)] =
            attempt # [Suc attempt ..< Suc attempt + (calls ?r - Suc (Suc ncalls))]"
          by (simp add: m_def)
        with ih Inl Some True show ?thesis by (simp add: withRetries_loop_retry)
      next
        case False
        with Inl Some show ?thesis by (simp add: withRetries_loop_throw)
      qed
    qed
  qed
qed

lemma world_before_Suc:
  "world_before apiCall (snd (apiCall w)) k = world_before apiCall w (Suc k)"
  using funpow_swap1 [of "\<lambda>x. snd (apiCall x)" k w] by (simp add: world_before_def)

lemma withRetries_loop_all_marked:
  assumes "nat maxRetries - attempt = Suc n"
    and "\<forall>k \<le> n. \<exists>e. fst (apiCall (world_before apiCall w k)) = Inl e
                       \<and> isRateLimitError e = Some True"
  shows "calls (fst (withRetries_loop apiCall maxRetries initialDelay attempt ncalls slept w)) = ncalls + Suc n
       \<and> outcome (fst (withRetries_loop apiCall maxRetries initialDelay attempt ncalls slept w)) =
           fst (apiCall (world_before apiCall w n))
       \<and> snd (withRetries_loop apiCall maxRetries initialDelay attempt ncalls slept w) =
           world_before apiCall w (Suc n)"
  using assms
proof (induction n arbitrary: attempt ncalls slept w)
  case 0
  from "0.prems"(2) obtain e where e: "fst (apiCall w) = Inl e" "isRateLimitError e = Some True"
    by (auto simp: world_before_def)
  from "0.prems"(1) have "\<not> (True \<and> int (Suc attempt) < maxRetries)" by linarith
  with e show ?case
    by (simp add: withRetries_loop_throw world_before_def)
next
  case (Suc n)
  from Suc.prems(2) obtain e where e: "fst (apiCall w) = Inl e" "isRateLimitError e = Some True"
    by (force simp: world_before_def)
  from Suc.prems(1) have lt: "int (Suc attempt) < maxRetries" by linarith
  from Suc.prems(1) have m: "nat maxRetries - Suc attempt = Suc n" by simp
  have "\<forall>k \<le> n. \<exists>e. fst (apiCall (world_before apiCall (snd (apiCall w)) k)) = Inl e
                       \<and> isRateLimitError e = Some True"
    using Suc.prems(2) by (simp add: world_before_Suc)
  from Suc.IH [OF m this] e lt show ?case
    by (simp add: withRetries_loop_retry world_before_Suc)
qed

subsection \<open>Exhausted retries\<close>

text \<open>
  Claim C4. For every attempt cap \<open>N \<ge> 1\<close>: when each of the first \<open>N\<close> invocations
  of the work fails with a value whose JSON text contains the rate-limit marker, the
  wrapper invokes the work exactly \<open>N\<close> times, and the failure it raises is the one
  of invocation number \<open>N\<close>.
\<close>

theorem retries_exhausted:
  assumes "1 \<le> N"
    and "\<forall>k < nat N. \<exists>e. fst (apiCall (world_before apiCall w k)) = Inl e
                           \<and> isRateLimitError e = Some True"
  shows "calls (fst (withRetries apiCall N initialDelay w)) = nat N
       \<and> outcome (fst (withRetries apiCall N initialDelay w)) =
           fst (apiCall (world_before apiCall w (nat N - 1)))"
proof -
  from assms(1) have n: "nat N - 0 = Suc (nat N - 1)" by simp
  from assms(2) have "\<forall>k \<le> nat N - 1. \<exists>e. fst (apiCall (world_before apiCall w k)) = Inl e
                           \<and> isRateLimitError e = Some True"
    using assms(1) by (simp add: less_eq_Suc_le [symmetric] Suc_le_eq) 
  from withRetries_loop_all_marked [OF n this, of initialDelay 0 "[]"] assms(1)
  show ?thesis by (simp add: withRetries_def)
qed

theorem retries_exhausted_witness:
  "1 \<le> (3::int)
   \<and> calls (fst (withRetries always_exhausted 3 2000 0)) = 3
   \<and> outcome (fst (withRetries always_exhausted 3 2000 0)) = Inl (quota_failure 3)"
proof -
  have w: "world_before always_exhausted 0 k = k" for k
    by (induction k) (simp_all add: world_before_def always_exhausted_def)
  have m: "isRateLimitError (quota_failure k) = Some True" for k
    by (simp add: isRateLimitError_def quota_failure_def JSON_quote_def JSON_quote_char_def
        includes_sub_append1 includes_sub_append2)
  have "\<forall>k < nat 3. \<exists>e. fst (always_exhausted (world_before always_exhausted 0 k)) = Inl e
                           \<and> isRateLimitError e = Some True"
    by (simp add: w m always_exhausted_def)
  from retries_exhausted [OF _ this, of 2000]
  have "calls (fst (withRetries always_exhausted 3 2000 0)) = 3
      \<and> outcome (fst (withRetries always_exhausted 3 2000 0)) =
          fst (always_exhausted (world_before always_exhausted 0 2))"
    by simp
  moreover have "fst (always_exhausted (world_before always_exhausted 0 2)) = Inl (quota_failure 3)"
    unfolding w by (simp add: always_exhausted_def)
  ultimately show ?thesis by simp
qed

subsection \<open>Failures without the marker\<close>

text \<open>
  A failure that does not make the marker test true ends the run after one invocation
  of the work and no sleep.
\<close>

lemma unmarked_failure_one_call:
  assumes "fst (apiCall w) = Inl e" and "isRateLimitError e \<noteq> Some True"
  shows "calls (fst (withRetries apiCall maxRetries initialDelay w)) = 1
       \<and> delays (fst (withRetries apiCall maxRetries initialDelay w)) = []"
proof (cases "isRateLimitError e")
  case None
  with assms(1) show ?thesis
    by (simp add: withRetries_def withRetries_loop_TypeError)
next
  case (Some b)
  with assms(2) have "\<not> (b \<and> int (Suc 0) < maxRetries)" by simp
  with assms(1) Some
    withRetries_loop_throw [of apiCall w e b 0 maxRetries initialDelay 0 "[]"]
  show ?thesis
    by (simp add: withRetries_def)
qed

text \<open>
  When the marker test is false, the value raised is the failure itself. This is every
  failure that has a JSON text without the marker.
\<close>

lemma unmarked_failure_rethrown:
  assumes "fst (apiCall w) = Inl e" and "isRateLimitError e = Some False"
  shows "withRetries apiCall maxRetries initialDelay w =
           (\<lparr>outcome = Inl e, calls = 1, delays = []\<rparr>, snd (apiCall w))"
  using assms
    withRetries_loop_throw [of apiCall w e False 0 maxRetries initialDelay 0 "[]"]
  by (simp add: withRetries_def)

lemma unmarked_failure_rethrown_example:
  "withRetries network_down 3 2000 0 =
     (\<lparr>outcome = Inl (Err ''TypeError'' ''Failed to fetch'' []), calls = 1, delays = []\<rparr>, 1)"
proof -
  have "fst (network_down 0) = Inl (Err ''TypeError'' ''Failed to fetch'' [])"
    by (simp add: network_down_def)
  moreover have "isRateLimitError (Err ''TypeError'' ''Failed to fetch'' []) = Some False"
    by (simp add: isRateLimitError_def)
  ultimately show ?thesis
    using unmarked_failure_rethrown [of network_down 0 _ 3 2000]
    by (simp add: network_down_def)
qed

text \<open>
  Claim C5 at a failure without JSON text. A piece of work that rejects with
  \<^verbatim>\<open>undefined\<close> carries no marker and is invoked once, but the wrapper does not raise
  \<^verbatim>\<open>undefined\<close>: the marker test calls \<^verbatim>\<open>includes\<close> on the \<^verbatim>\<open>undefined\<close> that
  \<^verbatim>\<open>JSON.stringify\<close> returned, and the \<^verbatim>\<open>TypeError\<close> of that call is raised in its
  place, before the \<^verbatim>\<open>throw e\<close> of line 31 is reached.
\<close>

theorem undefined_failure_replaced:
  "fst (rejects_undefined 0) = Inl Undefined
   \<and> JSON_stringify Undefined = None
   \<and> withRetries rejects_undefined 3 2000 0 =
       (\<lparr>outcome = Inl includes_TypeError, calls = 1, delays = []\<rparr>, 1)
   \<and> includes_TypeError \<noteq> Undefined"
  by (simp add: rejects_undefined_def withRetries_def withRetries_loop_TypeError
      isRateLimitError_def includes_TypeError_def)

subsection \<open>Backoff delays\<close>

lemma delays_withRetries:
  "delays (fst (withRetries apiCall maxRetries initialDelay w)) =
     map (\<lambda>k. backoff_delay initialDelay (Suc k))
       [0 ..< calls (fst (withRetries apiCall maxRetries initialDelay w)) - 1]"
  using delays_withRetries_loop [of apiCall maxRetries initialDelay 0 0 "[]" w]
  by (simp add: withRetries_def)

lemma nth_delays_withRetries:
  assumes "1 \<le> k" and "k < calls (fst (withRetries apiCall maxRetries initialDelay w))"
  shows "delays (fst (withRetries apiCall maxRetries initialDelay w)) ! (k - 1) =
     backoff_delay initialDelay k"
proof -
  from assms have "k - 1 < calls (fst (withRetries apiCall maxRetries initialDelay w)) - 1"
    by simp
  then have "map (\<lambda>k. backoff_delay initialDelay (Suc k))
      [0 ..< calls (fst (withRetries apiCall maxRetries initialDelay w)) - 1] ! (k - 1) =
      backoff_delay initialDelay (Suc (k - 1))"
    by (simp del: One_nat_def)
  with assms(1) show ?thesis by (subst delays_withRetries) simp
qed

lemma backoff_delay_exact:
  assumes "1 \<le> k" and "k \<le> 1024" and "\<bar>d * 2 ^ (k - 1)\<bar> < 2 ^ 1024"
  shows "backoff_delay d k = Finite (d * 2 ^ (k - 1))"
  using assms by (simp add: backoff_delay_def Math_pow2_def times_double_def)

lemma setTimeout_timeout_in_range:
  assumes "0 \<le> n" and "n \<le> 2 ^ 31 - 1"
  shows "setTimeout_timeout (Finite n) = n"
proof -
  from assms have "n mod 2 ^ 32 = n" by simp
  with assms show ?thesis by (simp add: setTimeout_timeout_def ToInt32_def Let_def)
qed

lemma setTimeout_timeout_backoff:
  assumes "1 \<le> k" and "0 \<le> d" and "d * 2 ^ (k - 1) \<le> 2 ^ 31 - 1"
  shows "setTimeout_timeout (backoff_delay d k) = d * 2 ^ (k - 1)"
proof (cases "d = 0")
  case True
  then show ?thesis
    by (simp add: backoff_delay_def Math_pow2_def times_double_def setTimeout_timeout_def
        ToInt32_def)
next
  case False
  with assms(2) have pos: "1 \<le> d" by simp
  have "(2::int) ^ (k - 1) \<le> d * 2 ^ (k - 1)"
    using pos by (simp add: mult_le_cancel_right1)
  with assms(3) have "(2::int) ^ (k - 1) \<le> 2 ^ 31 - 1" by linarith
  then have "(2::int) ^ (k - 1) < 2 ^ 31" by linarith
  then have "k - 1 < 31" by (simp only: power_strict_increasing_iff)
  with assms(1) have k: "k \<le> 1024" by simp
  from assms(2) have nonneg: "0 \<le> d * 2 ^ (k - 1)" by simp
  have "(2::int) ^ 31 - 1 < 2 ^ 1024" by simp
  with assms(3) nonneg have "\<bar>d * 2 ^ (k - 1)\<bar> < 2 ^ 1024" by linarith
  from backoff_delay_exact [OF assms(1) k this] nonneg assms(3) show ?thesis
    by (simp add: setTimeout_timeout_in_range)
qed

lemma quota_failure_marked: "isRateLimitError (quota_failure k) = Some True"
  by (simp add: isRateLimitError_def quota_failure_def JSON_quote_def JSON_quote_char_def
      includes_sub_append1 includes_sub_append2)

lemma world_before_always_exhausted: "world_before always_exhausted 0 k = k"
  by (induction k) (simp_all add: world_before_def always_exhausted_def)

text \<open>
  Claim C6, as the code has it. There is one sleep between two consecutive attempts,
  and the number handed to the timer between the failed attempt \<open>k\<close> and attempt
  \<open>k + 1\<close> is the double \<open>initialDelay * Math.pow(2, k - 1)\<close>, with nothing added and
  no cap applied by the wrapper. It is exactly \<open>initialDelay * 2 ^ (k - 1)\<close> as long as
  \<open>k \<le> 1024\<close> and the product stays below \<open>2 ^ 1024\<close> in magnitude, and the timer
  waits for exactly that time as long as the product is between 0 and \<open>2 ^ 31 - 1\<close>.
  With the defaults the sleeps are 2000 before attempt 2 and 4000 before attempt 3.
\<close>

theorem backoff_delays:
  "length (delays (fst (withRetries apiCall maxRetries initialDelay w))) =
     calls (fst (withRetries apiCall maxRetries initialDelay w)) - 1
   \<and> (\<forall>k. 1 \<le> k \<and> k < calls (fst (withRetries apiCall maxRetries initialDelay w)) \<longrightarrow>
          delays (fst (withRetries apiCall maxRetries initialDelay w)) ! (k - 1) =
            backoff_delay initialDelay k)
   \<and> (\<forall>k. 1 \<le> k \<and> k < calls (fst (withRetries apiCall maxRetries initialDelay w))
          \<and> k \<le> 1024 \<and> \<bar>initialDelay * 2 ^ (k - 1)\<bar> < 2 ^ 1024 \<longrightarrow>
          delays (fst (withRetries apiCall maxRetries initialDelay w)) ! (k - 1) =
            Finite (initialDelay * 2 ^ (k - 1)))
   \<and> (\<forall>k. 1 \<le> k \<and> k < calls (fst (withRetries apiCall maxRetries initialDelay w))
          \<and> 0 \<le> initialDelay \<and> initialDelay * 2 ^ (k - 1) \<le> 2 ^ 31 - 1 \<longrightarrow>
          waits (fst (withRetries apiCall maxRetries initialDelay w)) ! (k - 1) =
            initialDelay * 2 ^ (k - 1))
   \<and> (1 < calls (fst (withRetries_default apiCall w)) \<longrightarrow>
          delays (fst (withRetries_default apiCall w)) ! 0 = Finite 2000
          \<and> waits (fst (withRetries_default apiCall w)) ! 0 = 2000)
   \<and> (2 < calls (fst (withRetries_default apiCall w)) \<longrightarrow>
          delays (fst (withRetries_default apiCall w)) ! 1 = Finite 4000
          \<and> waits (fst (withRetries_default apiCall w)) ! 1 = 4000)"
proof -
  have len: "length (delays (fst (withRetries apiCall m i w))) =
      calls (fst (withRetries apiCall m i w)) - 1" for m i
    by (subst delays_withRetries) simp
  have exact: "delays (fst (withRetries apiCall m i w)) ! (k - 1) = Finite (i * 2 ^ (k - 1))"
    if "1 \<le> k" "k < calls (fst (withRetries apiCall m i w))" "k \<le> 1024"
      "\<bar>i * 2 ^ (k - 1)\<bar> < 2 ^ 1024" for m i k
    using nth_delays_withRetries [OF that(1,2)] backoff_delay_exact [OF that(1,3,4)] by simp
  have wait: "waits (fst (withRetries apiCall m i w)) ! (k - 1) = i * 2 ^ (k - 1)"
    if "1 \<le> k" "k < calls (fst (withRetries apiCall m i w))" "0 \<le> i"
      "i * 2 ^ (k - 1) \<le> 2 ^ 31 - 1" for m i k
  proof -
    from that(1,2) have "k - 1 < length (delays (fst (withRetries apiCall m i w)))"
      by (simp add: len)
    then have "waits (fst (withRetries apiCall m i w)) ! (k - 1) =
        setTimeout_timeout (delays (fst (withRetries apiCall m i w)) ! (k - 1))"
      by (simp add: waits_def del: One_nat_def)
    with nth_delays_withRetries [OF that(1,2)] setTimeout_timeout_backoff [OF that(1,3,4)]
    show ?thesis by simp
  qed
  have d1: "delays (fst (withRetries_default apiCall w)) ! 0 = Finite 2000
      \<and> waits (fst (withRetries_default apiCall w)) ! 0 = 2000"
    if "1 < calls (fst (withRetries_default apiCall w))"
    using that exact [of 1 3 2000] wait [of 1 3 2000] by (simp add: withRetries_default_def)
  have d2: "delays (fst (withRetries_default apiCall w)) ! 1 = Finite 4000
      \<and> waits (fst (withRetries_default apiCall w)) ! 1 = 4000"
    if "2 < calls (fst (withRetries_default apiCall w))"
    using that exact [of 2 3 2000] wait [of 2 3 2000] by (simp add: withRetries_default_def)
  from len [of maxRetries initialDelay] nth_delays_withRetries [of _ apiCall maxRetries initialDelay w]
    exact [of _ maxRetries initialDelay] wait [of _ maxRetries initialDelay] d1 d2
  show ?thesis by blast
qed

theorem backoff_delays_witness:
  "calls (fst (withRetries_default exhausted_twice 0)) = 3
   \<and> delays (fst (withRetries_default exhausted_twice 0)) ! 0 = Finite 2000
   \<and> delays (fst (withRetries_default exhausted_twice 0)) ! 1 = Finite 4000
   \<and> waits (fst (withRetries_default exhausted_twice 0)) ! 0 = 2000
   \<and> waits (fst (withRetries_default exhausted_twice 0)) ! 1 = 4000
   \<and> length (delays (fst (withRetries_default exhausted_twice 0))) = 2"
proof -
  have c: "calls (fst (withRetries_default exhausted_twice 0)) = 3"
    by code_simp
  note T = backoff_delays [of exhausted_twice 3 2000 0]
  have l: "length (delays (fst (withRetries exhausted_twice 3 2000 0))) =
      calls (fst (withRetries exhausted_twice 3 2000 0)) - 1"
    using T by blast
  have d1: "delays (fst (withRetries_default exhausted_twice 0)) ! 0 = Finite 2000
      \<and> waits (fst (withRetries_default exhausted_twice 0)) ! 0 = 2000"
    using T c by simp
  have d2: "delays (fst (withRetries_default exhausted_twice 0)) ! 1 = Finite 4000
      \<and> waits (fst (withRetries_default exhausted_twice 0)) ! 1 = 4000"
    using T c by simp
  from c l d1 d2 show ?thesis by (simp add: withRetries_default_def)
qed

text \<open>
  Claim C6 as stated fails where the product leaves these ranges. In a run of 1030
  attempts with the default delay, all failing with the marker, the number handed to
  the timer before attempt 1016 is \<^verbatim>\<open>Infinity\<close>, not \<open>2000 * 2 ^ 1014\<close>, and the timer
  started before attempt 23 is due at once, not after \<open>2000 * 2 ^ 21\<close>.
\<close>

theorem backoff_delays_counterexample:
  "calls (fst (withRetries always_exhausted 1030 2000 0)) = 1030
   \<and> delays (fst (withRetries always_exhausted 1030 2000 0)) ! (1015 - 1) = PosInfinity
   \<and> delays (fst (withRetries always_exhausted 1030 2000 0)) ! (1015 - 1)
       \<noteq> Finite (2000 * 2 ^ (1015 - 1))
   \<and> waits (fst (withRetries always_exhausted 1030 2000 0)) ! (22 - 1) = 0
   \<and> waits (fst (withRetries always_exhausted 1030 2000 0)) ! (22 - 1) \<noteq> 2000 * 2 ^ (22 - 1)"
proof -
  have n: "nat 1030 - 0 = Suc 1029" by simp
  have "\<forall>k \<le> 1029. \<exists>e. fst (always_exhausted (world_before always_exhausted 0 k)) = Inl e
      \<and> isRateLimitError e = Some True"
    by (simp add: world_before_always_exhausted always_exhausted_def quota_failure_marked)
  from withRetries_loop_all_marked [OF n this, of 2000 0 "[]"]
  have c: "calls (fst (withRetries always_exhausted 1030 2000 0)) = 1030"
    by (simp add: withRetries_def)
  have a: "delays (fst (withRetries always_exhausted 1030 2000 0)) ! (1015 - 1) =
      backoff_delay 2000 1015"
    using nth_delays_withRetries [of 1015 always_exhausted 1030 2000 0] c by simp
  have b: "delays (fst (withRetries always_exhausted 1030 2000 0)) ! (22 - 1) =
      backoff_delay 2000 22"
    using nth_delays_withRetries [of 22 always_exhausted 1030 2000 0] c by simp
  have "(22::nat) - 1 < length (delays (fst (withRetries always_exhausted 1030 2000 0)))"
    using c by (subst delays_withRetries) simp
  then have w: "waits (fst (withRetries always_exhausted 1030 2000 0)) ! (22 - 1) =
      setTimeout_timeout (delays (fst (withRetries always_exhausted 1030 2000 0)) ! (22 - 1))"
    by (simp only: waits_def nth_map)
  have inf: "backoff_delay 2000 1015 = PosInfinity"
    by code_simp
  have zero: "setTimeout_timeout (backoff_delay 2000 22) = 0"
    by code_simp
  have ne: "(0::int) \<noteq> 2000 * 2 ^ (22 - 1)"
    by simp
  from c a b w inf zero ne show ?thesis by simp
qed

subsection \<open>What decides a retry\<close>



section \<open>Properties of the classification\<close>

text \<open>
  Claim C1, as the code has it. The tests are not the same in the two stages. The
  script stage reports \<open>QuotaExceeded\<close> exactly when the message of the failure (if it
  is an \<^verbatim>\<open>Error\<close>) or its JSON text contains \<^verbatim>\<open>quota\<close> or \<^verbatim>\<open>RESOURCE_EXHAUSTED\<close>, and
  \<open>Unexpected\<close> otherwise; it has no other category. The video stage reads the message
  alone (\<^verbatim>\<open>String(e)\<close> when the failure is not an \<^verbatim>\<open>Error\<close>): \<^verbatim>\<open>quota\<close> or
  \<^verbatim>\<open>RESOURCE_EXHAUSTED\<close> gives \<open>QuotaExceeded\<close>, else \<^verbatim>\<open>VIDEO_URI_MISSING\<close> gives
  \<open>MissingResult\<close>, else \<^verbatim>\<open>sensitive\<close>, \<^verbatim>\<open>policy\<close> or \<^verbatim>\<open>responsible ai\<close> in any case of
  letters gives \<open>ContentPolicyViolation\<close>; the first two tests are case-sensitive. For an
  \<^verbatim>\<open>Error\<close>, \<open>QuotaExceeded\<close> in the video stage implies \<open>QuotaExceeded\<close> in the script
  stage.
\<close>

theorem classifier_by_stage:
  "(script_category e = QuotaExceeded \<or> script_category e = Unexpected)
   \<and> (script_category e = QuotaExceeded \<longleftrightarrow>
        (instanceof_Error e \<and> (includes_sub (message e) ''quota''
                                 \<or> includes_sub (message e) ''RESOURCE_EXHAUSTED''))
        \<or> (\<exists>t. JSON_stringify e = Some t
                 \<and> (includes_sub t ''quota'' \<or> includes_sub t ''RESOURCE_EXHAUSTED'')))
   \<and> (video_category e = QuotaExceeded \<longleftrightarrow>
        includes_sub (video_errorMessage e) ''quota''
        \<or> includes_sub (video_errorMessage e) ''RESOURCE_EXHAUSTED'')
   \<and> (video_category e = MissingResult \<longleftrightarrow>
        video_category e \<noteq> QuotaExceeded
        \<and> includes_sub (video_errorMessage e) ''VIDEO_URI_MISSING'')
   \<and> (video_category e = ContentPolicyViolation \<longleftrightarrow>
        video_category e \<noteq> QuotaExceeded
        \<and> \<not> includes_sub (video_errorMessage e) ''VIDEO_URI_MISSING''
        \<and> (includes_sub (toLowerCase (video_errorMessage e)) ''sensitive''
           \<or> includes_sub (toLowerCase (video_errorMessage e)) ''policy''
           \<or> includes_sub (toLowerCase (video_errorMessage e)) ''responsible ai''))
   \<and> (instanceof_Error e \<and> video_category e = QuotaExceeded \<longrightarrow>
        script_category e = QuotaExceeded)"
proof -
  have s1: "script_category e = QuotaExceeded \<or> script_category e = Unexpected"
    by (simp add: script_category_def Let_def)
  have q: "includes_sub (script_combinedErrorMessage e) sub \<longleftrightarrow>
      (instanceof_Error e \<and> includes_sub (message e) sub)
      \<or> (\<exists>t. JSON_stringify e = Some t \<and> includes_sub t sub)"
    if "CHR '' '' \<notin> set sub" "sub \<noteq> []" for sub
    unfolding script_combinedErrorMessage_def includes_sub_joined [OF that]
    using that(2) by (cases sub; cases "JSON_stringify e") auto
  have s2: "script_category e = QuotaExceeded \<longleftrightarrow>
        (instanceof_Error e \<and> (includes_sub (message e) ''quota''
                                 \<or> includes_sub (message e) ''RESOURCE_EXHAUSTED''))
        \<or> (\<exists>t. JSON_stringify e = Some t
                 \<and> (includes_sub t ''quota'' \<or> includes_sub t ''RESOURCE_EXHAUSTED''))"
    using q [of "''quota''"] q [of "''RESOURCE_EXHAUSTED''"]
    by (auto simp: script_category_def Let_def)
  have v1: "video_category e = QuotaExceeded \<longleftrightarrow>
        includes_sub (video_errorMessage e) ''quota''
        \<or> includes_sub (video_errorMessage e) ''RESOURCE_EXHAUSTED''"
    by (simp add: video_category_def Let_def)
  have v2: "video_category e = MissingResult \<longleftrightarrow>
        video_category e \<noteq> QuotaExceeded
        \<and> includes_sub (video_errorMessage e) ''VIDEO_URI_MISSING''"
    by (simp add: video_category_def Let_def)
  have v3: "video_category e = ContentPolicyViolation \<longleftrightarrow>
        video_category e \<noteq> QuotaExceeded
        \<and> \<not> includes_sub (video_errorMessage e) ''VIDEO_URI_MISSING''
        \<and> (includes_sub (toLowerCase (video_errorMessage e)) ''sensitive''
           \<or> includes_sub (toLowerCase (video_errorMessage e)) ''policy''
           \<or> includes_sub (toLowerCase (video_errorMessage e)) ''responsible ai'')"
    by (simp add: video_category_def Let_def)
  have r: "instanceof_Error e \<and> video_category e = QuotaExceeded \<longrightarrow>
        script_category e = QuotaExceeded"
    unfolding s2 v1 by (simp add: video_errorMessage_def)
  from s1 s2 v1 v2 v3 r show ?thesis by blast
qed

theorem classifier_by_stage_witness:
  "instanceof_Error (Err ''Error'' ''429 RESOURCE_EXHAUSTED: quota exceeded'' [])
   \<and> video_category (Err ''Error'' ''429 RESOURCE_EXHAUSTED: quota exceeded'' []) = QuotaExceeded
   \<and> script_category (Err ''Error'' ''429 RESOURCE_EXHAUSTED: quota exceeded'' []) = QuotaExceeded"
proof -
  have i: "instanceof_Error (Err ''Error'' ''429 RESOURCE_EXHAUSTED: quota exceeded'' [])"
    by (simp add: instanceof_Error_def)
  have v: "video_category (Err ''Error'' ''429 RESOURCE_EXHAUSTED: quota exceeded'' []) = QuotaExceeded"
    by code_simp
  from i v classifier_by_stage [of "Err ''Error'' ''429 RESOURCE_EXHAUSTED: quota exceeded'' []"]
  show ?thesis by blast
qed

text \<open>
  Claim C1 as stated fails: a failure whose message names a policy is a
  \<open>ContentPolicyViolation\<close> in the video stage and \<open>Unexpected\<close> in the script stage.
\<close>

theorem classifier_same_in_both_stages_counterexample:
  "script_category (Err ''Error'' ''The prompt was blocked by the safety policy'' []) = Unexpected
   \<and> video_category (Err ''Error'' ''The prompt was blocked by the safety policy'' [])
       = ContentPolicyViolation
   \<and> script_category (Err ''Error'' ''The prompt was blocked by the safety policy'' [])
       \<noteq> video_category (Err ''Error'' ''The prompt was blocked by the safety policy'' [])"
  by code_simp

text \<open>
  Neither stage recognises \<^verbatim>\<open>Quota\<close> with a capital letter, and the video stage does
  not look at the JSON text of a value that is not an \<^verbatim>\<open>Error\<close>.
\<close>

lemma classifier_quota_case_sensitive:
  "video_category (Err ''Error'' ''Quota exceeded for this project'' []) = Unexpected
   \<and> script_category (Err ''Error'' ''Quota exceeded for this project'' []) = Unexpected"
  by code_simp

lemma classifier_video_ignores_serialization:
  "video_category (quota_failure 1) = Unexpected
   \<and> script_category (quota_failure 1) = QuotaExceeded"
  by code_simp

section \<open>What the handlers leave unchanged\<close>

lemma generateVideo_begin_prefixes:
  assumes "k \<le> length generateVideo_begin"
  shows "run_updates (take k generateVideo_begin) s \<in>
     {s,
      s\<lparr>error := []\<rparr>,
      s\<lparr>error := [], videoGenerationFailed := False\<rparr>,
      s\<lparr>error := [], videoGenerationFailed := False,
        isLoading := (isLoading s)\<lparr>video_loading := True\<rparr>\<rparr>,
      s\<lparr>error := [], videoGenerationFailed := False,
        isLoading := (isLoading s)\<lparr>video_loading := True\<rparr>, currentStep := 5\<rparr>,
      s\<lparr>error := [], videoGenerationFailed := False,
        isLoading := (isLoading s)\<lparr>video_loading := True\<rparr>, currentStep := 5,
        videoLoadingMessage := ''Warming up the cameras...''\<rparr>}"
proof -
  from assms have "k \<le> 5" by (simp add: generateVideo_begin_def)
  then have "k = 0 \<or> k = 1 \<or> k = 2 \<or> k = 3 \<or> k = 4 \<or> k = 5" by linarith
  then show ?thesis
    by (elim disjE) (simp_all add: generateVideo_begin_def run_updates_def loadingMessages_def
        numeral_eq_Suc)
qed

lemma run_generateVideo_begin:
  "run_updates generateVideo_begin s =
     s\<lparr>error := [], videoGenerationFailed := False,
       isLoading := (isLoading s)\<lparr>video_loading := True\<rparr>, currentStep := 5,
       videoLoadingMessage := ''Warming up the cameras...''\<rparr>"
  by (simp add: generateVideo_begin_def run_updates_def loadingMessages_def)

lemma generateVideo_end_frame:
  "script (generateVideo_end ticks r t) = script t
   \<and> image_state (generateVideo_end ticks r t) = image_state t
   \<and> currentStep (generateVideo_end ticks r t) = currentStep t"
  by (cases "video_outcome r") (simp_all add: generateVideo_end_def Let_def)

lemma generateScript_frame:
  "audioUrl (fst (generateScript env s w)) = audioUrl s
   \<and> image_state (fst (generateScript env s w)) = image_state s
   \<and> videoUrl (fst (generateScript env s w)) = videoUrl s"
  by (cases "outcome (fst (withRetries_default (generateContent env (script_prompt (topic s))) w))")
    (simp_all add: generateScript_def Let_def)

lemma generateScript_success:
  assumes "trim (topic s) \<noteq> []"
    and "outcome (fst (withRetries_default (generateContent env (script_prompt (topic s))) w)) =
           Inr text"
  shows "script (fst (generateScript env s w)) = text
       \<and> currentStep (fst (generateScript env s w)) = 2"
  using assms by (simp add: generateScript_def Let_def)

lemma handleImageUpload_frame:
  "script (handleImageUpload file s) = script s
   \<and> audioUrl (handleImageUpload file s) = audioUrl s
   \<and> videoUrl (handleImageUpload file s) = videoUrl s"
  by (simp add: handleImageUpload_def split: option.splits)

lemma handleImageUpload_image:
  assumes "file = Some f" and "reader_result f = Some dataUrl"
  shows "currentStep (handleImageUpload file s) = 4
       \<and> image_state (handleImageUpload file s) =
           Some \<lparr>base64 = (case split_comma dataUrl of
                               x # base64String # xs \<Rightarrow> Some base64String
                             | _ \<Rightarrow> None),
                 mimeType = file_type f\<rparr>"
  using assms by (simp add: handleImageUpload_def)

lemma generateVideo_end_artifacts:
  "audioUrl (generateVideo_end ticks r t) = audioUrl t
   \<and> videoUrl (generateVideo_end ticks r t) =
       (case video_outcome r of Inr url \<Rightarrow> url | Inl e \<Rightarrow> videoUrl t)"
  by (cases "video_outcome r") (simp_all add: generateVideo_end_def Let_def)

lemma generateVideo_frame:
  assumes "generateVideo env ticks s w = Some (s', w')"
  shows "script s' = script s \<and> audioUrl s' = audioUrl s \<and> image_state s' = image_state s"
proof (cases "script s = [] \<or> image_state s = None")
  case True
  with assms show ?thesis by (auto simp: generateVideo_def)
next
  case False
  then obtain img where img: "image_state s = Some img" and sc: "script s \<noteq> []" by auto
  with assms obtain r where
    "s' = generateVideo_end ticks r (run_updates generateVideo_begin s)"
    by (auto simp: generateVideo_def split: option.splits)
  then show ?thesis
    by (simp add: generateVideo_end_frame generateVideo_end_artifacts run_generateVideo_begin)
qed

lemma generateVideo_video:
  assumes "script s \<noteq> []" and "image_state s = Some img"
    and "generateVideo_try env (script s) img w = Some (r, w')"
    and "generateVideo env ticks s w = Some (s', w'')"
  shows "currentStep s' = 5
       \<and> videoUrl s' = (case video_outcome r of Inr url \<Rightarrow> url | Inl e \<Rightarrow> videoUrl s)"
proof -
  from assms have "s' = generateVideo_end ticks r (run_updates generateVideo_begin s)"
    by (simp add: generateVideo_def)
  then show ?thesis
    by (cases "video_outcome r")
      (simp_all add: generateVideo_end_frame generateVideo_end_artifacts run_generateVideo_begin)
qed

lemma resubmit_guard:
  assumes "script t = [] \<or> image_state t = None"
  shows "handleResubmitVideo env ticks t w =
     Some (t\<lparr>error := ''Script and image are required to generate a video.''\<rparr>, w)"
  using assms by (auto simp: handleResubmitVideo_def generateVideo_def)

section \<open>Properties of navigation and reset\<close>

subsection \<open>Full reset\<close>

text \<open>
  \<^verbatim>\<open>resetApp\<close> returns every cell to its initial value except
  \<^verbatim>\<open>videoLoadingMessage\<close>, for which it has no setter call.
\<close>

lemma resetApp_all_but_loading_message:
  "resetApp s = initial_state\<lparr>videoLoadingMessage := videoLoadingMessage s\<rparr>"
  by (simp add: resetApp_def initial_state_def)

text \<open>
  Claim C2 at a state the application reaches: after a video has been generated from
  \<open>stage4_state\<close> the loading message is the first of the list, and the reset leaves
  it there, so the state after the reset is not the initial one.
\<close>

theorem resetApp_keeps_loading_message:
  "generateVideo ready_env 0 stage4_state 0 = Some (finished_state, 3)
   \<and> videoLoadingMessage (resetApp finished_state) = ''Warming up the cameras...''
   \<and> videoLoadingMessage initial_state = []
   \<and> resetApp finished_state \<noteq> initial_state"
  by code_simp

subsection \<open>Rewind\<close>

text \<open>
  Claim C3, as the code has it. \<^verbatim>\<open>handleGoBack\<close> lowers the stage by exactly one and
  changes no other cell. Going back and advancing again through the same stage keeps
  every artifact except the one that the action of that stage produces, which the
  action produces anew: \<^verbatim>\<open>generateScript\<close> keeps audio, image and video and stores the
  new script; \<^verbatim>\<open>skipAudioGeneration\<close> and a successful \<^verbatim>\<open>handleGenerateAudio\<close> keep
  script, image and video, and the first empties \<^verbatim>\<open>audioUrl\<close> while the second stores
  the new object URL; \<^verbatim>\<open>handleImageUpload\<close> keeps script, audio and video and stores
  the uploaded image; \<^verbatim>\<open>generateVideo\<close> keeps script, audio and image and stores the
  new video when it produced one. In particular going back from stage 3 and returning
  to it keeps the image. Going back and skipping the audio twice, or uploading the same
  file twice, gives the same state as doing it once.
\<close>

theorem rewind_and_readvance:
  "currentStep (handleGoBack s) = currentStep s - 1
   \<and> handleGoBack s = s\<lparr>currentStep := currentStep s - 1\<rparr>
   \<and> script (handleGoBack s) = script s
   \<and> audioUrl (handleGoBack s) = audioUrl s
   \<and> image_state (handleGoBack s) = image_state s
   \<and> videoUrl (handleGoBack s) = videoUrl s
   \<and> (currentStep s = 3 \<longrightarrow>
        currentStep (skipAudioGeneration (handleGoBack s)) = 3
        \<and> script (skipAudioGeneration (handleGoBack s)) = script s
        \<and> image_state (skipAudioGeneration (handleGoBack s)) = image_state s
        \<and> videoUrl (skipAudioGeneration (handleGoBack s)) = videoUrl s
        \<and> audioUrl (skipAudioGeneration (handleGoBack s)) = []
        \<and> skipAudioGeneration (handleGoBack s) = s\<lparr>audioUrl := []\<rparr>)
   \<and> (currentStep s = 3 \<and> script s \<noteq> [] \<and> \<not> random > 0.5 \<longrightarrow>
        currentStep (handleGenerateAudio random objectUrl (handleGoBack s)) = 3
        \<and> script (handleGenerateAudio random objectUrl (handleGoBack s)) = script s
        \<and> image_state (handleGenerateAudio random objectUrl (handleGoBack s)) = image_state s
        \<and> videoUrl (handleGenerateAudio random objectUrl (handleGoBack s)) = videoUrl s
        \<and> audioUrl (handleGenerateAudio random objectUrl (handleGoBack s)) = objectUrl)
   \<and> skipAudioGeneration (handleGoBack (skipAudioGeneration (handleGoBack s))) =
        skipAudioGeneration (handleGoBack s)
   \<and> audioUrl (fst (generateScript env (handleGoBack s) w)) = audioUrl s
   \<and> image_state (fst (generateScript env (handleGoBack s) w)) = image_state s
   \<and> videoUrl (fst (generateScript env (handleGoBack s) w)) = videoUrl s
   \<and> (currentStep s = 2 \<and> trim (topic s) \<noteq> []
        \<and> outcome (fst (withRetries_default (generateContent env (script_prompt (topic s))) w))
            = Inr text \<longrightarrow>
        currentStep (fst (generateScript env (handleGoBack s) w)) = 2
        \<and> script (fst (generateScript env (handleGoBack s) w)) = text)
   \<and> script (handleImageUpload chosen (handleGoBack s)) = script s
   \<and> audioUrl (handleImageUpload chosen (handleGoBack s)) = audioUrl s
   \<and> videoUrl (handleImageUpload chosen (handleGoBack s)) = videoUrl s
   \<and> (currentStep s = 4 \<and> chosen = Some f \<and> reader_result f = Some dataUrl \<longrightarrow>
        currentStep (handleImageUpload chosen (handleGoBack s)) = 4
        \<and> image_state (handleImageUpload chosen (handleGoBack s)) =
            Some \<lparr>base64 = (case split_comma dataUrl of
                                x # base64String # xs \<Rightarrow> Some base64String
                              | _ \<Rightarrow> None),
                  mimeType = file_type f\<rparr>
        \<and> handleImageUpload chosen (handleGoBack (handleImageUpload chosen (handleGoBack s))) =
            handleImageUpload chosen (handleGoBack s))
   \<and> (\<forall>s' w'. generateVideo env ticks (handleGoBack s) w = Some (s', w') \<longrightarrow>
        script s' = script s \<and> audioUrl s' = audioUrl s \<and> image_state s' = image_state s)
   \<and> (\<forall>s' w' w'' r img.
        currentStep s = 5 \<and> script s \<noteq> [] \<and> image_state s = Some img
        \<and> generateVideo_try env (script s) img w = Some (r, w')
        \<and> generateVideo env ticks (handleGoBack s) w = Some (s', w'') \<longrightarrow>
        currentStep s' = 5
        \<and> videoUrl s' = (case video_outcome r of Inr url \<Rightarrow> url | Inl e \<Rightarrow> videoUrl s))"
proof -
  have rewind: "currentStep (handleGoBack s) = currentStep s - 1
      \<and> handleGoBack s = s\<lparr>currentStep := currentStep s - 1\<rparr>"
    by (simp add: handleGoBack_def)
  have fields: "script (handleGoBack s) = script s
      \<and> audioUrl (handleGoBack s) = audioUrl s
      \<and> image_state (handleGoBack s) = image_state s
      \<and> videoUrl (handleGoBack s) = videoUrl s
      \<and> topic (handleGoBack s) = topic s"
    by (simp add: handleGoBack_def)
  have skip: "currentStep (skipAudioGeneration (handleGoBack s)) = 3
        \<and> script (skipAudioGeneration (handleGoBack s)) = script s
        \<and> image_state (skipAudioGeneration (handleGoBack s)) = image_state s
        \<and> videoUrl (skipAudioGeneration (handleGoBack s)) = videoUrl s
        \<and> audioUrl (skipAudioGeneration (handleGoBack s)) = []
        \<and> skipAudioGeneration (handleGoBack s) = s\<lparr>audioUrl := []\<rparr>"
    if "currentStep s = 3"
    using that by (simp add: handleGoBack_def skipAudioGeneration_def)
  have audio: "currentStep (handleGenerateAudio random objectUrl (handleGoBack s)) = 3
        \<and> script (handleGenerateAudio random objectUrl (handleGoBack s)) = script s
        \<and> image_state (handleGenerateAudio random objectUrl (handleGoBack s)) = image_state s
        \<and> videoUrl (handleGenerateAudio random objectUrl (handleGoBack s)) = videoUrl s
        \<and> audioUrl (handleGenerateAudio random objectUrl (handleGoBack s)) = objectUrl"
    if "script s \<noteq> []" "\<not> random > 0.5"
    using that by (simp add: handleGoBack_def handleGenerateAudio_def Let_def)
  have idem: "skipAudioGeneration (handleGoBack (skipAudioGeneration (handleGoBack s))) =
        skipAudioGeneration (handleGoBack s)"
    by (simp add: handleGoBack_def skipAudioGeneration_def)
  have gs: "audioUrl (fst (generateScript env (handleGoBack s) w)) = audioUrl s
      \<and> image_state (fst (generateScript env (handleGoBack s) w)) = image_state s
      \<and> videoUrl (fst (generateScript env (handleGoBack s) w)) = videoUrl s"
    using generateScript_frame [of env "handleGoBack s" w] fields by simp
  have gsok: "currentStep (fst (generateScript env (handleGoBack s) w)) = 2
        \<and> script (fst (generateScript env (handleGoBack s) w)) = text"
    if "trim (topic s) \<noteq> []"
      "outcome (fst (withRetries_default (generateContent env (script_prompt (topic s))) w))
        = Inr text"
    using that generateScript_success [of "handleGoBack s" env w "text"] fields by simp
  have up: "script (handleImageUpload chosen (handleGoBack s)) = script s
      \<and> audioUrl (handleImageUpload chosen (handleGoBack s)) = audioUrl s
      \<and> videoUrl (handleImageUpload chosen (handleGoBack s)) = videoUrl s"
    using handleImageUpload_frame [of chosen "handleGoBack s"] fields by simp
  have upok: "currentStep (handleImageUpload chosen (handleGoBack s)) = 4
        \<and> image_state (handleImageUpload chosen (handleGoBack s)) =
            Some \<lparr>base64 = (case split_comma dataUrl of
                                x # base64String # xs \<Rightarrow> Some base64String
                              | _ \<Rightarrow> None),
                  mimeType = file_type f\<rparr>"
    if "chosen = Some f" "reader_result f = Some dataUrl"
    using that by (rule handleImageUpload_image)
  have upidem: "handleImageUpload chosen (handleGoBack (handleImageUpload chosen (handleGoBack s))) =
        handleImageUpload chosen (handleGoBack s)"
    if "chosen = Some f" "reader_result f = Some dataUrl"
    using that by (simp add: handleImageUpload_def handleGoBack_def)
  have gv: "script s' = script s \<and> audioUrl s' = audioUrl s \<and> image_state s' = image_state s"
    if "generateVideo env ticks (handleGoBack s) w = Some (s', w')" for s' w'
    using generateVideo_frame [OF that] fields by simp
  have gvok: "currentStep s' = 5
        \<and> videoUrl s' = (case video_outcome r of Inr url \<Rightarrow> url | Inl e \<Rightarrow> videoUrl s)"
    if "script s \<noteq> []" "image_state s = Some img"
      "generateVideo_try env (script s) img w = Some (r, w')"
      "generateVideo env ticks (handleGoBack s) w = Some (s', w'')" for s' w' w'' r img
    using generateVideo_video [of "handleGoBack s" img env w r w' ticks s' w''] that fields
    by (cases "video_outcome r") simp_all
  from rewind fields skip audio idem gs gsok up upok upidem gv gvok show ?thesis
    by blast
qed

theorem rewind_and_readvance_witness:
  "currentStep stage3_state = 3
   \<and> currentStep (handleGoBack stage3_state) = 2
   \<and> image_state (skipAudioGeneration (handleGoBack stage3_state)) = Some sample_image
   \<and> audioUrl (skipAudioGeneration (handleGoBack stage3_state)) = []
   \<and> audioUrl (handleGenerateAudio 0.25 ''blob:audio-2'' (handleGoBack stage3_state))
       = ''blob:audio-2''
   \<and> script (handleImageUpload (Some other_file) (handleGoBack stage3_state))
       = script stage3_state
   \<and> audioUrl (fst (generateScript rewrite_env (handleGoBack stage3_state) 0))
       = ''blob:audio-1''"
proof -
  have c: "currentStep stage3_state = 3"
    by (simp add: stage3_state_def)
  have s: "script stage3_state \<noteq> []"
    by (simp add: stage3_state_def)
  have i: "image_state stage3_state = Some sample_image"
    by (simp add: stage3_state_def)
  have a: "audioUrl stage3_state = ''blob:audio-1''"
    by (simp add: stage3_state_def)
  have r: "\<not> (0.25::real) > 0.5"
    by simp
  note T = rewind_and_readvance [where s = stage3_state and random = "0.25"
      and objectUrl = "''blob:audio-2''" and chosen = "Some other_file" and env = rewrite_env
      and w = 0]
  have k1: "audioUrl (skipAudioGeneration (handleGoBack stage3_state)) = []"
    using T c by blast
  have k2: "image_state (skipAudioGeneration (handleGoBack stage3_state)) =
      image_state stage3_state"
    using T c by blast
  have k3: "audioUrl (handleGenerateAudio 0.25 ''blob:audio-2'' (handleGoBack stage3_state))
      = ''blob:audio-2''"
    using T c s r by blast
  have k4: "currentStep (handleGoBack stage3_state) = currentStep stage3_state - 1"
    using T by blast
  have k5: "script (handleImageUpload (Some other_file) (handleGoBack stage3_state))
      = script stage3_state"
    using T by blast
  have k6: "audioUrl (fst (generateScript rewrite_env (handleGoBack stage3_state) 0))
      = audioUrl stage3_state"
    using T by blast
  from k1 k2 k3 k4 k5 k6 c i a show ?thesis by simp
qed

text \<open>
  Claim C3 as stated fails for the artifact of the stage that is run again: the audio
  is emptied by continuing without audio at \<open>stage3_state\<close>, the script is overwritten
  by generating it again at \<open>stage2_state\<close>, the image is replaced by uploading
  another file at \<open>stage4_state\<close>, and the video is replaced by generating it again
  at \<open>finished_state\<close>; each time the stage is the one before the rewind.
\<close>

theorem rewind_keeps_artifacts_counterexample:
  "currentStep stage3_state = 3
   \<and> audioUrl stage3_state = ''blob:audio-1''
   \<and> currentStep (skipAudioGeneration (handleGoBack stage3_state)) = 3
   \<and> audioUrl (skipAudioGeneration (handleGoBack stage3_state)) = []
   \<and> audioUrl (skipAudioGeneration (handleGoBack stage3_state)) \<noteq> audioUrl stage3_state
   \<and> currentStep stage2_state = 2
   \<and> currentStep (fst (generateScript rewrite_env (handleGoBack stage2_state) 0)) = 2
   \<and> script (fst (generateScript rewrite_env (handleGoBack stage2_state) 0))
       \<noteq> script stage2_state
   \<and> currentStep stage4_state = 4
   \<and> currentStep (handleImageUpload (Some other_file) (handleGoBack stage4_state)) = 4
   \<and> image_state (handleImageUpload (Some other_file) (handleGoBack stage4_state))
       \<noteq> image_state stage4_state
   \<and> currentStep finished_state = 5
   \<and> generateVideo second_video_env 0 (handleGoBack finished_state) 0 =
       Some (finished_state\<lparr>videoUrl := ''blob:video-2''\<rparr>, 3)
   \<and> videoUrl (finished_state\<lparr>videoUrl := ''blob:video-2''\<rparr>) \<noteq> videoUrl finished_state"
  by code_simp

section \<open>Properties of the audio handler\<close>

text \<open>
  Claim C10. On the server-busy branch of \<^verbatim>\<open>handleGenerateAudio\<close> the only cells
  that change are \<^verbatim>\<open>audioError\<close>, which is set, and the audio flag of
  \<^verbatim>\<open>isLoading\<close>, which ends false: the stage, the script, the three artifacts, the other
  error cells and the other two flags are as before. The stage becomes 3 on the success
  branch, and it changes on no other branch.
\<close>

theorem audio_failure_frame:
  "(script s \<noteq> [] \<and> random > 0.5 \<longrightarrow>
      handleGenerateAudio random objectUrl s =
        s\<lparr>audioError := audioBusyText, isLoading := (isLoading s)\<lparr>audio_loading := False\<rparr>\<rparr>
      \<and> audioError (handleGenerateAudio random objectUrl s) = audioBusyText
      \<and> audio_loading (isLoading (handleGenerateAudio random objectUrl s)) = False
      \<and> currentStep (handleGenerateAudio random objectUrl s) = currentStep s
      \<and> script (handleGenerateAudio random objectUrl s) = script s
      \<and> audioUrl (handleGenerateAudio random objectUrl s) = audioUrl s
      \<and> image_state (handleGenerateAudio random objectUrl s) = image_state s
      \<and> videoUrl (handleGenerateAudio random objectUrl s) = videoUrl s
      \<and> error (handleGenerateAudio random objectUrl s) = error s
      \<and> videoGenerationFailed (handleGenerateAudio random objectUrl s) = videoGenerationFailed s
      \<and> script_loading (isLoading (handleGenerateAudio random objectUrl s)) =
          script_loading (isLoading s)
      \<and> video_loading (isLoading (handleGenerateAudio random objectUrl s)) =
          video_loading (isLoading s))
   \<and> (script s \<noteq> [] \<and> \<not> random > 0.5 \<longrightarrow>
        currentStep (handleGenerateAudio random objectUrl s) = 3)
   \<and> (script s = [] \<longrightarrow> handleGenerateAudio random objectUrl s = s)
   \<and> (currentStep (handleGenerateAudio random objectUrl s) \<noteq> currentStep s \<longrightarrow>
        script s \<noteq> [] \<and> \<not> random > 0.5
        \<and> currentStep (handleGenerateAudio random objectUrl s) = 3)"
proof (cases "script s = []")
  case True
  then show ?thesis by (simp add: handleGenerateAudio_def)
next
  case False
  show ?thesis
  proof (cases "random > 0.5")
    case True
    with False show ?thesis by (simp add: handleGenerateAudio_def Let_def)
  next
    case busy: False
    with False show ?thesis by (simp add: handleGenerateAudio_def Let_def)
  qed
qed

theorem audio_failure_frame_witness:
  "script (handleGoBack stage3_state) \<noteq> [] \<and> (0.75::real) > 0.5
   \<and> handleGenerateAudio 0.75 ''blob:audio-2'' (handleGoBack stage3_state) =
       (handleGoBack stage3_state)\<lparr>audioError := audioBusyText\<rparr>
   \<and> currentStep (handleGenerateAudio 0.75 ''blob:audio-2'' (handleGoBack stage3_state)) = 2
   \<and> currentStep (handleGenerateAudio 0.25 ''blob:audio-2'' (handleGoBack stage3_state)) = 3"
proof -
  have s: "script (handleGoBack stage3_state) \<noteq> []"
    by (simp add: stage3_state_def handleGoBack_def)
  have l: "isLoading (handleGoBack stage3_state) =
      \<lparr>script_loading = False, video_loading = False, audio_loading = False\<rparr>"
    by (simp add: stage3_state_def handleGoBack_def initial_state_def)
  have c: "currentStep (handleGoBack stage3_state) = 2"
    by (simp add: stage3_state_def handleGoBack_def)
  have hi: "(0.75::real) > 0.5" and lo: "\<not> (0.25::real) > 0.5"
    by simp_all
  note T = audio_failure_frame [of "handleGoBack stage3_state" "0.75" "''blob:audio-2''"]
  note U = audio_failure_frame [of "handleGoBack stage3_state" "0.25" "''blob:audio-2''"]
  have k1: "handleGenerateAudio 0.75 ''blob:audio-2'' (handleGoBack stage3_state) =
      (handleGoBack stage3_state)\<lparr>audioError := audioBusyText,
        isLoading := (isLoading (handleGoBack stage3_state))\<lparr>audio_loading := False\<rparr>\<rparr>"
    using T s hi by blast
  have k2: "currentStep (handleGenerateAudio 0.75 ''blob:audio-2'' (handleGoBack stage3_state)) =
      currentStep (handleGoBack stage3_state)"
    using T s hi by blast
  have k3: "currentStep (handleGenerateAudio 0.25 ''blob:audio-2'' (handleGoBack stage3_state)) = 3"
    using U s lo by blast
  have k4: "(handleGoBack stage3_state)\<lparr>audioError := audioBusyText,
        isLoading := (isLoading (handleGoBack stage3_state))\<lparr>audio_loading := False\<rparr>\<rparr> =
      (handleGoBack stage3_state)\<lparr>audioError := audioBusyText\<rparr>"
    by (simp add: l)
  from k1 k2 k3 k4 s c hi show ?thesis by simp
qed

section \<open>Properties of the poller\<close>

text \<open>An operation that the polling loop returns is done.\<close>

lemma generateVideo_poll_result:
  assumes "generateVideo_poll env operation0 n0 w0 = Some y"
  shows "case fst y of Inr operation \<Rightarrow> op_done operation | Inl e \<Rightarrow> True"
proof (rule generateVideo_poll.raw_induct
    [where P = "\<lambda>env operation n w y. case fst y of Inr operation \<Rightarrow> op_done operation
                                                  | Inl e \<Rightarrow> True", OF _ assms])
  fix poll :: "'a env \<Rightarrow> Operation \<Rightarrow> nat \<Rightarrow> 'a \<Rightarrow> ((jsval + Operation) \<times> nat \<times> 'a) option"
  fix env operation n w y
  assume IH: "\<And>env operation n w y. poll env operation n w = Some y \<Longrightarrow>
      (case fst y of Inr operation \<Rightarrow> op_done operation | Inl e \<Rightarrow> True)"
  assume step: "(if op_done operation then Some (Inr operation, n, w)
      else case withRetries_default (getVideosOperation env operation) w of
           (r, w') \<Rightarrow>
             (case outcome r of Inl e \<Rightarrow> Some (Inl e, Suc n, w')
              | Inr operation' \<Rightarrow> poll env operation' (Suc n) w')) = Some y"
  show "case fst y of Inr operation \<Rightarrow> op_done operation | Inl e \<Rightarrow> True"
  proof (cases "op_done operation")
    case True
    with step show ?thesis by auto
  next
    case False
    obtain r w' where rw: "withRetries_default (getVideosOperation env operation) w = (r, w')"
      by (cases "withRetries_default (getVideosOperation env operation) w")
    show ?thesis
    proof (cases "outcome r")
      case (Inl e)
      with step False rw show ?thesis by auto
    next
      case (Inr operation')
      with step False rw have "poll env operation' (Suc n) w' = Some y" by simp
      then show ?thesis by (rule IH)
    qed
  qed
qed

lemma generateVideo_poll_done:
  "generateVideo_poll env operation0 n0 w0 = Some (Inr operation, n, w) \<Longrightarrow> op_done operation"
  by (drule generateVideo_poll_result) simp

text \<open>
  Claim C7. When the submission returns an operation and polling ends with an operation
  that is done, carries no error and no result URI (none along the chain, or the empty
  string), the \<^verbatim>\<open>try\<close> block returns, and what it raises is
  \<^verbatim>\<open>new Error("VIDEO_URI_MISSING")\<close>, which the video stage classifies as
  \<open>MissingResult\<close>; no URL is fetched and the world is the one the last status query
  left.
\<close>

theorem poller_missing_result:
  assumes "outcome (fst (withRetries_default (generateVideos env prompt img) w0)) = Inr operation0"
    and "generateVideo_poll env operation0 0
           (snd (withRetries_default (generateVideos env prompt img) w0)) = Some (Inr operation, n, w)"
    and "op_error operation = None"
    and "operation_uri operation = None \<or> operation_uri operation = Some []"
  shows "generateVideo_try env prompt img w0 =
           Some (\<lparr>video_outcome = Inl (Err ''Error'' ''VIDEO_URI_MISSING'' []), fetched = [],
                   polls = n\<rparr>, w)
       \<and> op_done operation
       \<and> generateVideo_result env operation w = (Inl (Err ''Error'' ''VIDEO_URI_MISSING'' []), [], w)
       \<and> video_category (Err ''Error'' ''VIDEO_URI_MISSING'' []) = MissingResult"
proof -
  have res: "generateVideo_result env operation w =
      (Inl (Err ''Error'' ''VIDEO_URI_MISSING'' []), [], w)"
    using assms(3,4) by (auto simp: generateVideo_result_def)
  have whole: "generateVideo_try env prompt img w0 =
      Some (\<lparr>video_outcome = Inl (Err ''Error'' ''VIDEO_URI_MISSING'' []), fetched = [],
              polls = n\<rparr>, w)"
  proof -
    obtain r w1 where rw: "withRetries_default (generateVideos env prompt img) w0 = (r, w1)"
      by (cases "withRetries_default (generateVideos env prompt img) w0")
    with assms(1,2) res show ?thesis
      by (simp add: generateVideo_try_def)
  qed
  have dn: "op_done operation"
    using assms(2) by (rule generateVideo_poll_done)
  have cat: "video_category (Err ''Error'' ''VIDEO_URI_MISSING'' []) = MissingResult"
    by code_simp
  from res whole dn cat show ?thesis by simp
qed

theorem poller_missing_result_witness:
  "generateVideo_try filtered_env ''Coffee began in Ethiopia.'' sample_image 0 =
     Some (\<lparr>video_outcome = Inl (Err ''Error'' ''VIDEO_URI_MISSING'' []), fetched = [],
             polls = 1\<rparr>, 2)
   \<and> op_done empty_operation"
proof -
  have a: "outcome (fst (withRetries_default
      (generateVideos filtered_env ''Coffee began in Ethiopia.'' sample_image) 0)) =
      Inr pending_operation"
    by code_simp
  have b: "generateVideo_poll filtered_env pending_operation 0
      (snd (withRetries_default
        (generateVideos filtered_env ''Coffee began in Ethiopia.'' sample_image) 0)) =
      Some (Inr empty_operation, 1, 2)"
    by code_simp
  have c: "op_error empty_operation = None"
    by (simp add: empty_operation_def)
  have d: "operation_uri empty_operation = None \<or> operation_uri empty_operation = Some []"
    by (simp add: empty_operation_def operation_uri_def)
  from poller_missing_result [OF a b c d] show ?thesis by simp
qed

section \<open>Properties of resubmission\<close>

text \<open>
  Claim C8, as the code has it. In a state where a video attempt has failed (the latch
  is set, an error text is stored, no video action is running) and script and image
  are still there, \<^verbatim>\<open>handleResubmitVideo\<close> runs the \<^verbatim>\<open>try\<close> block of
  \<^verbatim>\<open>generateVideo\<close> with the script and the image of the state. In every state between
  two of its setter calls in which the video flag is set, the latch and the error text
  are already cleared; after the five calls the flag is set. Script and image are the
  same in all these states and in the final one, and the stage is never lower than
  before: it ends at 5. When the script is empty or the image is absent, the handler
  only stores the text of its guard as the error and returns.
\<close>

theorem resubmit_after_failure:
  assumes "videoGenerationFailed s" and "error s \<noteq> []"
    and "script s \<noteq> []" and "image_state s = Some img"
    and "\<not> video_loading (isLoading s)" and "currentStep s \<le> 5"
  shows "handleResubmitVideo env ticks s w =
           (case generateVideo_try env (script s) img w of
              None \<Rightarrow> None
            | Some (r, w') \<Rightarrow>
                Some (generateVideo_end ticks r (run_updates generateVideo_begin s), w'))
       \<and> (\<forall>k \<le> length generateVideo_begin.
            (video_loading (isLoading (run_updates (take k generateVideo_begin) s)) \<longrightarrow>
               \<not> videoGenerationFailed (run_updates (take k generateVideo_begin) s)
               \<and> error (run_updates (take k generateVideo_begin) s) = [])
            \<and> script (run_updates (take k generateVideo_begin) s) = script s
            \<and> image_state (run_updates (take k generateVideo_begin) s) = image_state s
            \<and> currentStep s \<le> currentStep (run_updates (take k generateVideo_begin) s))
       \<and> video_loading (isLoading (run_updates generateVideo_begin s))
       \<and> \<not> videoGenerationFailed (run_updates generateVideo_begin s)
       \<and> error (run_updates generateVideo_begin s) = []
       \<and> (\<forall>s' w'. handleResubmitVideo env ticks s w = Some (s', w') \<longrightarrow>
            script s' = script s \<and> image_state s' = image_state s
            \<and> currentStep s' = 5 \<and> currentStep s \<le> currentStep s')
       \<and> (\<forall>t. script t = [] \<or> image_state t = None \<longrightarrow>
            handleResubmitVideo env ticks t w =
              Some (t\<lparr>error := ''Script and image are required to generate a video.''\<rparr>, w))"
proof -
  have run: "handleResubmitVideo env ticks s w =
           (case generateVideo_try env (script s) img w of
              None \<Rightarrow> None
            | Some (r, w') \<Rightarrow>
                Some (generateVideo_end ticks r (run_updates generateVideo_begin s), w'))"
    using assms(3,4) by (simp add: handleResubmitVideo_def generateVideo_def)
  have during: "(video_loading (isLoading (run_updates (take k generateVideo_begin) s)) \<longrightarrow>
               \<not> videoGenerationFailed (run_updates (take k generateVideo_begin) s)
               \<and> error (run_updates (take k generateVideo_begin) s) = [])
            \<and> script (run_updates (take k generateVideo_begin) s) = script s
            \<and> image_state (run_updates (take k generateVideo_begin) s) = image_state s
            \<and> currentStep s \<le> currentStep (run_updates (take k generateVideo_begin) s)"
    if "k \<le> length generateVideo_begin" for k
    using generateVideo_begin_prefixes [OF that, of s] assms(5,6) by auto
  have after: "video_loading (isLoading (run_updates generateVideo_begin s))
       \<and> \<not> videoGenerationFailed (run_updates generateVideo_begin s)
       \<and> error (run_updates generateVideo_begin s) = []"
    by (simp add: run_generateVideo_begin)
  have final: "script s' = script s \<and> image_state s' = image_state s
            \<and> currentStep s' = 5 \<and> currentStep s \<le> currentStep s'"
    if "handleResubmitVideo env ticks s w = Some (s', w')" for s' w'
  proof -
    from that run obtain r where
      "s' = generateVideo_end ticks r (run_updates generateVideo_begin s)"
      by (auto split: option.splits)
    then show ?thesis
      using assms(6) by (simp add: generateVideo_end_frame run_generateVideo_begin)
  qed
  have guard: "handleResubmitVideo env ticks t w =
      Some (t\<lparr>error := ''Script and image are required to generate a video.''\<rparr>, w)"
    if "script t = [] \<or> image_state t = None" for t
    using that by (rule resubmit_guard)
  from run during after final guard show ?thesis by blast
qed

theorem resubmit_after_failure_witness:
  "videoGenerationFailed failed_state \<and> error failed_state \<noteq> []
   \<and> currentStep failed_state = 5
   \<and> handleResubmitVideo ready_env 0 failed_state 0 = Some (finished_state, 3)
   \<and> script finished_state = script failed_state
   \<and> image_state finished_state = image_state failed_state
   \<and> currentStep finished_state = 5"
proof -
  have a: "videoGenerationFailed failed_state" by code_simp
  have b: "error failed_state \<noteq> []" by code_simp
  have c: "script failed_state \<noteq> []" by code_simp
  have d: "image_state failed_state = Some sample_image" by code_simp
  have e: "\<not> video_loading (isLoading failed_state)" by code_simp
  have f: "currentStep failed_state \<le> 5" by code_simp
  have g: "currentStep failed_state = 5" by code_simp
  have h: "(case generateVideo_try ready_env (script failed_state) sample_image 0 of
              None \<Rightarrow> None
            | Some (r, w') \<Rightarrow>
                Some (generateVideo_end 0 r (run_updates generateVideo_begin failed_state), w'))
      = Some (finished_state, 3)"
    by code_simp
  note T = resubmit_after_failure [OF a b c d e f, of ready_env 0 0]
  from T h have run: "handleResubmitVideo ready_env 0 failed_state 0 = Some (finished_state, 3)"
    by simp
  with T have "script finished_state = script failed_state
      \<and> image_state finished_state = image_state failed_state
      \<and> currentStep finished_state = 5"
    by blast
  with a b g run show ?thesis by simp
qed

text \<open>
  Claim C8 as stated fails in a failed state without script or image: after the user
  has emptied the script text area, or cleared the image, the latch and an error text
  are still set, and the resubmission returns at the guard of lines 211 to 214 with the
  latch set, an error text stored, no flag set and no call made.
\<close>

theorem resubmit_after_failure_counterexample:
  "videoGenerationFailed emptied_script_state
   \<and> error emptied_script_state \<noteq> []
   \<and> handleResubmitVideo ready_env 0 emptied_script_state 0 =
       Some (emptied_script_state
               \<lparr>error := ''Script and image are required to generate a video.''\<rparr>, 0)
   \<and> videoGenerationFailed
        (emptied_script_state\<lparr>error := ''Script and image are required to generate a video.''\<rparr>)
   \<and> videoGenerationFailed cleared_image_state
   \<and> error cleared_image_state \<noteq> []
   \<and> handleResubmitVideo ready_env 0 cleared_image_state 0 =
       Some (cleared_image_state
               \<lparr>error := ''Script and image are required to generate a video.''\<rparr>, 0)
   \<and> videoGenerationFailed
        (cleared_image_state\<lparr>error := ''Script and image are required to generate a video.''\<rparr>)"
  by code_simp

text \<open>The failed state of the example is the one a failed attempt leaves.\<close>

lemma failed_state_reached:
  "generateVideo filtered_env 0 stage4_state 0 = Some (failed_state, 2)"
  by code_simp

end
